theory Spec2Isabelle
  imports Complex_Main "HOL-Library.Sublist" "HOL-Library.AList"
begin

section \<open>JavaScript strings\<close>

text \<open>
  A JavaScript string is modelled as a \<open>string\<close> (a list of characters).
  \<^verbatim>\<open>s.indexOf(pat)\<close> is the first position at which \<open>pat\<close> occurs in \<open>s\<close>,
  or \<open>-1\<close> when it does not occur. The source uses it in three ways:
  \<^verbatim>\<open>=== 0\<close> (prefix test), \<^verbatim>\<open>!== -1\<close> (substring test) and, in
  \<^verbatim>\<open>Storage.removeAcquireTokenEntries\<close>, \<^verbatim>\<open>!== 1\<close>.
\<close>

fun indexOf :: "string \<Rightarrow> string \<Rightarrow> int" where
  "indexOf [] pat = (if pat = [] then 0 else - 1)"
| "indexOf (c # cs) pat =
     (if prefix pat (c # cs) then 0
      else (let i = indexOf cs pat in if i = - 1 then - 1 else i + 1))"

text \<open>
  \<^verbatim>\<open>s.split(sep)\<close>: the pieces of \<open>s\<close> between the occurrences of \<open>sep\<close>,
  scanning from the left; with the empty separator, the characters of \<open>s\<close>.
\<close>

function splitOn :: "string \<Rightarrow> string \<Rightarrow> string \<Rightarrow> string list" where
  "splitOn sep acc [] = [acc]"
| "splitOn sep acc (c # cs) =
     (if sep \<noteq> [] \<and> prefix sep (c # cs)
      then acc # splitOn sep [] (drop (length sep) (c # cs))
      else splitOn sep (acc @ [c]) cs)"
  by pat_completeness auto
termination
  by (relation "measure (\<lambda>(sep, acc, s). length s)") auto

definition split :: "string \<Rightarrow> string \<Rightarrow> string list" where
  "split s sep = (if sep = [] then map (\<lambda>c. [c]) s else splitOn sep [] s)"

section \<open>The host environment\<close>

text \<open>
  Every \<^verbatim>\<open>throw\<close> of the source, and every exception of the platform that the
  source can run into, is a value of \<open>error\<close>; a function that can raise returns
  \<open>error + 'a\<close> with \<open>Inl\<close> for the exception.
\<close>

datatype error =
    NoWindowObjectError
  | StorageNotSupportedError string
  | NoStorageSupportedError
  | UnsupportedStorageType
  | ReferenceError
  | TypeError
  | SyntaxError

text \<open>
  The content of a storage area, in enumeration order (the order of
  \<^verbatim>\<open>Object.keys(storage)\<close>, or of \<^verbatim>\<open>getAllKeys()\<close> for a host-supplied
  store). \<^verbatim>\<open>setItem\<close> is \<open>AList.update\<close> (overwrite in place, or append),
  \<^verbatim>\<open>getItem\<close> is \<open>map_of\<close> (\<open>None\<close> for \<^verbatim>\<open>null\<close>),
  \<^verbatim>\<open>removeItem\<close> is \<open>AList.delete\<close>.
\<close>

type_synonym store = "(string \<times> string) list"

text \<open>What \<^verbatim>\<open>window[name]\<close> evaluates to for a storage name.\<close>

datatype area = Undefined | Null | StorageArea store

record window =
  localStorage :: area
  sessionStorage :: area

text \<open>
  \<^verbatim>\<open>type CacheLocation = "localStorage" | "sessionStorage" | ICustomStorage\<close>.
  A host-supplied object is either an instance of (a subclass of) \<^verbatim>\<open>CustomStorage\<close>
  or some other object that implements the interface; \<^verbatim>\<open>getStorage\<close> tells them
  apart with \<^verbatim>\<open>instanceof\<close>. The \<^verbatim>\<open>CustomStorage\<close> instance is taken to
  override every method with the behaviour of a storage area over \<open>customStorage\<close>.
\<close>

datatype cacheLocation = LocalStorage | SessionStorage | CustomInstance | ForeignObject

text \<open>
  The mutable world the code runs in. \<open>window\<close> is \<open>None\<close> when the global is falsy.
  \<open>cookieAssignments\<close> records every string assigned to \<^verbatim>\<open>document.cookie\<close>,
  oldest first; \<open>now\<close> is what \<^verbatim>\<open>new Date().getTime()\<close> returns.
\<close>

record host =
  window :: "window option"
  customStorage :: store
  cookieAssignments :: "string list"
  now :: int

text \<open>
  A JavaScript \<^verbatim>\<open>number\<close>: a finite value (every finite double is a rational;
  \<open>Num 0\<close> is both zeros), \<^verbatim>\<open>NaN\<close>, or an infinity. \<^verbatim>\<open>if (n)\<close> is false for zero
  and for \<^verbatim>\<open>NaN\<close> and true for every other number.
\<close>

datatype jsNumber = Num rat | NaN | Infinity | MinusInfinity

fun truthy :: "jsNumber \<Rightarrow> bool" where
  "truthy (Num n) = (n \<noteq> 0)"
| "truthy NaN = False"
| "truthy Infinity = True"
| "truthy MinusInfinity = True"

text \<open>\<^verbatim>\<open>n * k\<close> for a positive integer constant \<open>k\<close>, and \<^verbatim>\<open>t + n\<close> for an integer
  \<open>t\<close>; the arithmetic of finite values is taken as exact (the rounding of doubles is
  not modelled).\<close>

fun jsTimes :: "jsNumber \<Rightarrow> int \<Rightarrow> jsNumber" where
  "jsTimes (Num n) k = Num (n * of_int k)"
| "jsTimes NaN k = NaN"
| "jsTimes Infinity k = Infinity"
| "jsTimes MinusInfinity k = MinusInfinity"

fun jsPlus :: "int \<Rightarrow> jsNumber \<Rightarrow> jsNumber" where
  "jsPlus t (Num n) = Num (of_int t + n)"
| "jsPlus t NaN = NaN"
| "jsPlus t Infinity = Infinity"
| "jsPlus t MinusInfinity = MinusInfinity"

text \<open>
  Platform built-ins the source calls, taken as parameters:
  \<^verbatim>\<open>JSON.parse\<close> (\<open>None\<close> when it throws), the search of a regular expression built
  from a pattern string that contains syntax characters (\<open>None\<close> when the pattern is
  not a valid expression), the string that reading \<^verbatim>\<open>document.cookie\<close> returns
  after a sequence of assignments, and \<^verbatim>\<open>new Date(t).toUTCString()\<close> for a number
  \<open>t\<close> of milliseconds (the text \<^verbatim>\<open>Invalid Date\<close> when \<open>t\<close> is no time value).
\<close>

record 'j platform =
  JSON_parse :: "string \<Rightarrow> 'j option"
  RegExp_search :: "string \<Rightarrow> string \<Rightarrow> bool option"
  document_cookie :: "string list \<Rightarrow> string"
  toUTCString :: "jsNumber \<Rightarrow> string"

text \<open>
  The constants of \<^verbatim>\<open>utils/Constants\<close> that \<^verbatim>\<open>AuthCache\<close> reads
  (\<^verbatim>\<open>Constants\<close>, \<^verbatim>\<open>TemporaryCacheKeys\<close>); that file is not among the sources,
  so they are parameters.
\<close>

record constants =
  cachePrefix :: string
  adalIdToken :: string
  inProgress :: string
  RENEW_STATUS :: string
  INTERACTION_STATUS :: string
  REDIRECT_REQUEST :: string
  NONCE_IDTOKEN :: string
  STATE_LOGIN :: string
  LOGIN_REQUEST :: string
  STATE_ACQ_TOKEN :: string

section \<open>BrowserStorage\<close>

text \<open>\<^verbatim>\<open>typeof x === "string"\<close> for the field \<^verbatim>\<open>this.cacheLocation\<close>; \<open>None\<close> is a
  field that has not been assigned (\<^verbatim>\<open>undefined\<close>).\<close>

fun typeofIsString :: "cacheLocation option \<Rightarrow> bool" where
  "typeofIsString (Some LocalStorage) = True"
| "typeofIsString (Some SessionStorage) = True"
| "typeofIsString _ = False"

fun windowIndex :: "window \<Rightarrow> cacheLocation option \<Rightarrow> area" where
  "windowIndex w (Some LocalStorage) = localStorage w"
| "windowIndex w (Some SessionStorage) = sessionStorage w"
| "windowIndex w _ = Undefined"

definition stringStorageSupported :: "window \<Rightarrow> cacheLocation option \<Rightarrow> bool" where
  "stringStorageSupported w field =
     (windowIndex w field \<noteq> Undefined \<and> windowIndex w field \<noteq> Null)"

fun locationName :: "cacheLocation option \<Rightarrow> string" where
  "locationName (Some LocalStorage) = ''localStorage''"
| "locationName (Some SessionStorage) = ''sessionStorage''"
| "locationName _ = ''''"

text \<open>
  \<^verbatim>\<open>BrowserStorage.constructor(cacheLocation)\<close>, with \<open>location\<close> for the
  argument. The test reads \<^verbatim>\<open>this.cacheLocation\<close>, and the
  assignment \<^verbatim>\<open>this.cacheLocation = cacheLocation\<close> is the last statement, so the
  field the test reads is still unassigned. The result is the field of the new object.
\<close>

definition BrowserStorage_constructor :: "host \<Rightarrow> cacheLocation \<Rightarrow> error + cacheLocation" where
  "BrowserStorage_constructor h location =
     (case window h of
        None \<Rightarrow> Inl NoWindowObjectError
      | Some w \<Rightarrow>
          (let this_cacheLocation = None in
           if typeofIsString this_cacheLocation
              \<and> \<not> stringStorageSupported w this_cacheLocation
           then Inl (StorageNotSupportedError (locationName this_cacheLocation))
           else Inr location))"

text \<open>
  \<^verbatim>\<open>getStorage\<close> returns the global \<^verbatim>\<open>localStorage\<close> or \<^verbatim>\<open>sessionStorage\<close>
  (whatever its value), the \<^verbatim>\<open>CustomStorage\<close> instance, or throws. Every caller
  at once calls a method on the result (or \<^verbatim>\<open>Object.keys\<close>), which throws a
  \<^verbatim>\<open>TypeError\<close> on \<^verbatim>\<open>undefined\<close> and \<^verbatim>\<open>null\<close>: \<open>storageContents\<close>.
\<close>

definition getStorage :: "cacheLocation \<Rightarrow> host \<Rightarrow> error + area" where
  "getStorage loc h =
     (case loc of
        LocalStorage \<Rightarrow>
          (case window h of None \<Rightarrow> Inl ReferenceError | Some w \<Rightarrow> Inr (localStorage w))
      | SessionStorage \<Rightarrow>
          (case window h of None \<Rightarrow> Inl ReferenceError | Some w \<Rightarrow> Inr (sessionStorage w))
      | CustomInstance \<Rightarrow> Inr (StorageArea (customStorage h))
      | ForeignObject \<Rightarrow> Inl UnsupportedStorageType)"

definition storageContents :: "cacheLocation \<Rightarrow> host \<Rightarrow> error + store" where
  "storageContents loc h =
     (case getStorage loc h of
        Inl e \<Rightarrow> Inl e
      | Inr (StorageArea s) \<Rightarrow> Inr s
      | Inr _ \<Rightarrow> Inl TypeError)"

text \<open>The host after a mutating method of the selected storage object has run.\<close>

definition putStorage :: "cacheLocation \<Rightarrow> store \<Rightarrow> host \<Rightarrow> host" where
  "putStorage loc s h =
     (case loc of
        LocalStorage \<Rightarrow>
          h\<lparr>window := map_option (\<lambda>w. w\<lparr>localStorage := StorageArea s\<rparr>) (window h)\<rparr>
      | SessionStorage \<Rightarrow>
          h\<lparr>window := map_option (\<lambda>w. w\<lparr>sessionStorage := StorageArea s\<rparr>) (window h)\<rparr>
      | CustomInstance \<Rightarrow> h\<lparr>customStorage := s\<rparr>
      | ForeignObject \<Rightarrow> h)"

text \<open>\<^verbatim>\<open>getCookieExpirationTime(cookieLifeDays)\<close>.\<close>

definition getCookieExpirationTime :: "'j platform \<Rightarrow> host \<Rightarrow> jsNumber \<Rightarrow> string" where
  "getCookieExpirationTime P h cookieLifeDays =
     toUTCString P
       (jsPlus (now h) (jsTimes (jsTimes (jsTimes (jsTimes cookieLifeDays 24) 60) 60) 1000))"

text \<open>
  \<^verbatim>\<open>BrowserStorage.setItemCookie(cName, cValue, expires?)\<close>. \<open>expires\<close> is \<open>None\<close>
  when the argument is absent; \<^verbatim>\<open>if (expires)\<close> is false for \<^verbatim>\<open>undefined\<close> and
  for a number that is not \<open>truthy\<close>.
\<close>

definition cookieString ::
  "'j platform \<Rightarrow> host \<Rightarrow> string \<Rightarrow> string \<Rightarrow> jsNumber option \<Rightarrow> string" where
  "cookieString P h cName cValue expires =
     (let cookieStr = cName @ ''='' @ cValue @ '';path=/;'' in
      case expires of
        None \<Rightarrow> cookieStr
      | Some e \<Rightarrow>
          if truthy e
          then cookieStr @ ''expires='' @ getCookieExpirationTime P h e @ '';''
          else cookieStr)"

definition BrowserStorage_setItemCookie ::
  "'j platform \<Rightarrow> string \<Rightarrow> string \<Rightarrow> jsNumber option \<Rightarrow> host \<Rightarrow> host" where
  "BrowserStorage_setItemCookie P cName cValue expires h =
     h\<lparr>cookieAssignments := cookieAssignments h @ [cookieString P h cName cValue expires]\<rparr>"

text \<open>\<^verbatim>\<open>BrowserStorage.getItemCookie(cName)\<close>: the loop over the pieces of
  \<^verbatim>\<open>document.cookie.split(";")\<close>.\<close>

fun scanCookies :: "string \<Rightarrow> string list \<Rightarrow> string" where
  "scanCookies name [] = ''''"
| "scanCookies name (c # ca) =
     (let c' = dropWhile (\<lambda>x. x = CHR '' '') c in
      if indexOf c' name = 0 then drop (length name) c' else scanCookies name ca)"

definition BrowserStorage_getItemCookie :: "'j platform \<Rightarrow> string \<Rightarrow> host \<Rightarrow> string" where
  "BrowserStorage_getItemCookie P cName h =
     scanCookies (cName @ ''='') (split (document_cookie P (cookieAssignments h)) '';'')"

text \<open>
  \<^verbatim>\<open>setItem\<close>, \<^verbatim>\<open>getItem\<close>, \<^verbatim>\<open>removeItem\<close> and \<^verbatim>\<open>clearItemCookie\<close> call
  \<^verbatim>\<open>this.setItemCookie\<close> and \<^verbatim>\<open>this.getItemCookie\<close>, which a subclass overrides:
  the method of \<^verbatim>\<open>this\<close> is the first argument.
\<close>

definition BrowserStorage_setItem ::
  "(string \<Rightarrow> string \<Rightarrow> jsNumber option \<Rightarrow> host \<Rightarrow> host) \<Rightarrow> cacheLocation \<Rightarrow>
   string \<Rightarrow> string \<Rightarrow> bool \<Rightarrow> host \<Rightarrow> error + host" where
  "BrowserStorage_setItem this_setItemCookie loc key value enableCookieStorage h =
     (case storageContents loc h of
        Inl e \<Rightarrow> Inl e
      | Inr s \<Rightarrow>
          (let h1 = putStorage loc (AList.update key value s) h in
           Inr (if enableCookieStorage then this_setItemCookie key value None h1 else h1)))"

definition BrowserStorage_getItem ::
  "(string \<Rightarrow> host \<Rightarrow> string) \<Rightarrow> cacheLocation \<Rightarrow> string \<Rightarrow> bool \<Rightarrow> host \<Rightarrow>
   error + string option" where
  "BrowserStorage_getItem this_getItemCookie loc key enableCookieStorage h =
     (if enableCookieStorage \<and> this_getItemCookie key h \<noteq> []
      then Inr (Some (this_getItemCookie key h))
      else (case storageContents loc h of
              Inl e \<Rightarrow> Inl e
            | Inr s \<Rightarrow> Inr (map_of s key)))"

definition BrowserStorage_removeItem :: "cacheLocation \<Rightarrow> string \<Rightarrow> host \<Rightarrow> error + host" where
  "BrowserStorage_removeItem loc key h =
     (case storageContents loc h of
        Inl e \<Rightarrow> Inl e
      | Inr s \<Rightarrow> Inr (putStorage loc (AList.delete key s) h))"

definition BrowserStorage_clearItemCookie ::
  "(string \<Rightarrow> string \<Rightarrow> jsNumber option \<Rightarrow> host \<Rightarrow> host) \<Rightarrow> string \<Rightarrow> host \<Rightarrow> host" where
  "BrowserStorage_clearItemCookie this_setItemCookie cName h =
     this_setItemCookie cName '''' (Some (Num (- 1))) h"

section \<open>AuthCache\<close>

record authCache =
  cacheLocation :: cacheLocation
  clientId :: string
  rollbackEnabled :: bool

text \<open>\<^verbatim>\<open>generateCacheKey(key, addInstanceId)\<close>: the \<^verbatim>\<open>try\<close> returns the key when
  \<^verbatim>\<open>JSON.parse(key)\<close> does not throw; the \<^verbatim>\<open>catch\<close> does the rest.\<close>

definition generateCacheKey ::
  "'j platform \<Rightarrow> constants \<Rightarrow> authCache \<Rightarrow> string \<Rightarrow> bool \<Rightarrow> string" where
  "generateCacheKey P K this key addInstanceId =
     (case JSON_parse P key of
        Some parsed \<Rightarrow> key
      | None \<Rightarrow>
          if indexOf key (cachePrefix K) = 0 \<or> indexOf key (adalIdToken K) = 0
          then key
          else if addInstanceId
               then cachePrefix K @ ''.'' @ clientId this @ ''.'' @ key
               else cachePrefix K @ ''.'' @ key)"

text \<open>\<^verbatim>\<open>AuthCache.setItemCookie\<close> and \<^verbatim>\<open>AuthCache.getItemCookie\<close> (overrides).\<close>

definition AuthCache_setItemCookie ::
  "'j platform \<Rightarrow> constants \<Rightarrow> authCache \<Rightarrow> string \<Rightarrow> string \<Rightarrow> jsNumber option \<Rightarrow>
   host \<Rightarrow> host" where
  "AuthCache_setItemCookie P K this cName cValue expires h =
     (let h1 = BrowserStorage_setItemCookie P (generateCacheKey P K this cName True)
                 cValue expires h in
      if rollbackEnabled this
      then BrowserStorage_setItemCookie P (generateCacheKey P K this cName False)
             cValue expires h1
      else h1)"

definition AuthCache_getItemCookie ::
  "'j platform \<Rightarrow> constants \<Rightarrow> authCache \<Rightarrow> string \<Rightarrow> host \<Rightarrow> string" where
  "AuthCache_getItemCookie P K this cName h =
     BrowserStorage_getItemCookie P (generateCacheKey P K this cName True) h"

text \<open>\<^verbatim>\<open>AuthCache.setItem\<close>, \<^verbatim>\<open>getItem\<close>, \<^verbatim>\<open>removeItem\<close>. Each \<^verbatim>\<open>await\<close>
  is sequencing: the next statement runs on the host the awaited call leaves, and a
  rejection ends the function.\<close>

definition AuthCache_setItem ::
  "'j platform \<Rightarrow> constants \<Rightarrow> authCache \<Rightarrow> string \<Rightarrow> string \<Rightarrow> bool \<Rightarrow>
   host \<Rightarrow> error + host" where
  "AuthCache_setItem P K this key value enableCookieStorage h =
     (case BrowserStorage_setItem (AuthCache_setItemCookie P K this) (cacheLocation this)
             (generateCacheKey P K this key True) value enableCookieStorage h of
        Inl e \<Rightarrow> Inl e
      | Inr h1 \<Rightarrow>
          if rollbackEnabled this
          then BrowserStorage_setItem (AuthCache_setItemCookie P K this) (cacheLocation this)
                 (generateCacheKey P K this key False) value enableCookieStorage h1
          else Inr h1)"

definition AuthCache_getItem ::
  "'j platform \<Rightarrow> constants \<Rightarrow> authCache \<Rightarrow> string \<Rightarrow> bool \<Rightarrow> host \<Rightarrow>
   error + string option" where
  "AuthCache_getItem P K this key enableCookieStorage h =
     BrowserStorage_getItem (AuthCache_getItemCookie P K this) (cacheLocation this)
       (generateCacheKey P K this key True) enableCookieStorage h"

definition AuthCache_removeItem ::
  "'j platform \<Rightarrow> constants \<Rightarrow> authCache \<Rightarrow> string \<Rightarrow> host \<Rightarrow> error + host" where
  "AuthCache_removeItem P K this key h =
     (case BrowserStorage_removeItem (cacheLocation this)
             (generateCacheKey P K this key True) h of
        Inl e \<Rightarrow> Inl e
      | Inr h1 \<Rightarrow>
          if rollbackEnabled this
          then BrowserStorage_removeItem (cacheLocation this)
                 (generateCacheKey P K this key False) h1
          else Inr h1)"

text \<open>\<^verbatim>\<open>AuthCache.resetCacheItems\<close>: the loop over the keys listed before it starts.\<close>

fun resetCacheItems_loop :: "constants \<Rightarrow> cacheLocation \<Rightarrow> string list \<Rightarrow> host \<Rightarrow> error + host" where
  "resetCacheItems_loop K loc [] h = Inr h"
| "resetCacheItems_loop K loc (key # keys) h =
     (if indexOf key (cachePrefix K) \<noteq> - 1
      then (case BrowserStorage_removeItem loc key h of
              Inl e \<Rightarrow> Inl e
            | Inr h1 \<Rightarrow> resetCacheItems_loop K loc keys h1)
      else resetCacheItems_loop K loc keys h)"

definition AuthCache_resetCacheItems :: "constants \<Rightarrow> authCache \<Rightarrow> host \<Rightarrow> error + host" where
  "AuthCache_resetCacheItems K this h =
     (case storageContents (cacheLocation this) h of
        Inl e \<Rightarrow> Inl e
      | Inr s \<Rightarrow> resetCacheItems_loop K (cacheLocation this) (map fst s) h)"

text \<open>
  An \<^verbatim>\<open>async\<close> function returns a promise object at once; the promise carries what
  the body settles to. Where the source applies \<^verbatim>\<open>!\<close> to the promise itself (no
  \<^verbatim>\<open>await\<close>), the operand is an object, and \<^verbatim>\<open>ToBoolean\<close> of an object is
  \<^verbatim>\<open>true\<close> whatever it holds.
\<close>

datatype 'a promise = Promise "error + 'a"

fun ToBoolean :: "'a promise \<Rightarrow> bool" where
  "ToBoolean (Promise outcome) = True"

text \<open>\<^verbatim>\<open>AuthCache.tokenRenewalInProgress(stateValue)\<close>, an \<^verbatim>\<open>async\<close> method.\<close>

definition AuthCache_tokenRenewalInProgress ::
  "'j platform \<Rightarrow> constants \<Rightarrow> authCache \<Rightarrow> string \<Rightarrow> host \<Rightarrow> bool promise" where
  "AuthCache_tokenRenewalInProgress P K this stateValue h =
     Promise
       (case AuthCache_getItem P K this (RENEW_STATUS K @ ''|'' @ stateValue) False h of
          Inl e \<Rightarrow> Inl e
        | Inr renewStatus \<Rightarrow>
            Inr (case renewStatus of
                   None \<Rightarrow> False
                 | Some r \<Rightarrow> r \<noteq> [] \<and> r = inProgress K))"

text \<open>\<^verbatim>\<open>AuthCache.clearMsalCookie(state)\<close>.\<close>

definition AuthCache_clearMsalCookie ::
  "'j platform \<Rightarrow> constants \<Rightarrow> authCache \<Rightarrow> string \<Rightarrow> host \<Rightarrow> host" where
  "AuthCache_clearMsalCookie P K this state h =
     (let clearItemCookie = BrowserStorage_clearItemCookie (AuthCache_setItemCookie P K this);
          h1 = clearItemCookie (NONCE_IDTOKEN K @ ''|'' @ state) h;
          h2 = clearItemCookie (STATE_LOGIN K @ ''|'' @ state) h1;
          h3 = clearItemCookie (LOGIN_REQUEST K @ ''|'' @ state) h2
      in clearItemCookie (STATE_ACQ_TOKEN K @ ''|'' @ state) h3)"

text \<open>
  \<^verbatim>\<open>AuthCache.resetTempCacheItems(state)\<close>. The condition of the loop is
  \<^verbatim>\<open>(!state || key.indexOf(state) !== -1) && !this.tokenRenewalInProgress(state)\<close>:
  the second operand negates the promise that the \<^verbatim>\<open>async\<close> method returns.
\<close>

fun resetTempCacheItems_loop ::
  "'j platform \<Rightarrow> constants \<Rightarrow> authCache \<Rightarrow> string \<Rightarrow> string list \<Rightarrow> host \<Rightarrow> error + host" where
  "resetTempCacheItems_loop P K this state [] h = Inr h"
| "resetTempCacheItems_loop P K this state (key # keys) h =
     (if (state = [] \<or> indexOf key state \<noteq> - 1)
         \<and> \<not> ToBoolean (AuthCache_tokenRenewalInProgress P K this state h)
      then (case AuthCache_removeItem P K this key h of
              Inl e \<Rightarrow> Inl e
            | Inr h1 \<Rightarrow>
                resetTempCacheItems_loop P K this state keys
                  (AuthCache_clearMsalCookie P K this state
                     (AuthCache_setItemCookie P K this key [] (Some (Num (- 1))) h1)))
      else resetTempCacheItems_loop P K this state keys h)"

definition AuthCache_resetTempCacheItems ::
  "'j platform \<Rightarrow> constants \<Rightarrow> authCache \<Rightarrow> string \<Rightarrow> host \<Rightarrow> error + host" where
  "AuthCache_resetTempCacheItems P K this state h =
     (case storageContents (cacheLocation this) h of
        Inl e \<Rightarrow> Inl e
      | Inr s \<Rightarrow>
          (case resetTempCacheItems_loop P K this state (map fst s) h of
             Inl e \<Rightarrow> Inl e
           | Inr h1 \<Rightarrow>
               (case AuthCache_removeItem P K this (INTERACTION_STATUS K) h1 of
                  Inl e \<Rightarrow> Inl e
                | Inr h2 \<Rightarrow> AuthCache_removeItem P K this (REDIRECT_REQUEST K) h2)))"

text \<open>
  \<^verbatim>\<open>key.match(pattern)\<close> with a string argument searches \<open>key\<close> for the regular
  expression \<^verbatim>\<open>new RegExp(pattern)\<close>. In a pattern whose only syntax characters are
  dots, a dot matches any one character but a line terminator and every other character
  matches itself (\<open>dotSearch\<close>: is there a position of the string where the pattern
  matches); a pattern with any other syntax character is left to the platform.
\<close>

definition syntaxCharacters :: "char list" where
  "syntaxCharacters = ''^$.*+?()[]{}|'' @ [CHR 0x5C]"

fun dotPrefix :: "string \<Rightarrow> string \<Rightarrow> bool" where
  "dotPrefix [] cs = True"
| "dotPrefix (p # ps) [] = False"
| "dotPrefix (p # ps) (c # cs) =
     ((if p = CHR ''.'' then c \<noteq> CHR 0x0A \<and> c \<noteq> CHR 0x0D else p = c) \<and> dotPrefix ps cs)"

fun dotSearch :: "string \<Rightarrow> string \<Rightarrow> bool" where
  "dotSearch pat [] = dotPrefix pat []"
| "dotSearch pat (c # cs) = (dotPrefix pat (c # cs) \<or> dotSearch pat cs)"

definition String_match :: "'j platform \<Rightarrow> string \<Rightarrow> string \<Rightarrow> error + bool" where
  "String_match P str pattern =
     (if list_all (\<lambda>c. c = CHR ''.'' \<or> c \<notin> set syntaxCharacters) pattern
      then Inr (dotSearch pattern str)
      else (case RegExp_search P pattern str of
              None \<Rightarrow> Inl SyntaxError
            | Some found \<Rightarrow> Inr found))"

text \<open>
  Modelled from the spec: \<^verbatim>\<open>AccessTokenCacheItem\<close> (its file is not among the
  sources) is the pair of the decoded key and the decoded value.
\<close>

datatype 'j accessTokenCacheItem = AccessTokenCacheItem 'j 'j

text \<open>\<^verbatim>\<open>JSON.parse(value)\<close> of what \<^verbatim>\<open>getItem\<close> returned: \<^verbatim>\<open>null\<close> is first
  converted to the string \<^verbatim>\<open>"null"\<close>.\<close>

definition JSON_parse_item :: "'j platform \<Rightarrow> string option \<Rightarrow> 'j option" where
  "JSON_parse_item P value =
     JSON_parse P (case value of None \<Rightarrow> ''null'' | Some v \<Rightarrow> v)"

text \<open>\<^verbatim>\<open>AuthCache.getAllAccessTokens(clientId, homeAccountIdentifier)\<close>. The
  \<^verbatim>\<open>try\<close> covers the two \<^verbatim>\<open>JSON.parse\<close> calls and the \<^verbatim>\<open>push\<close>; the
  \<^verbatim>\<open>match\<close> calls and \<^verbatim>\<open>getItem\<close> are outside it.\<close>

fun getAllAccessTokens_loop ::
  "'j platform \<Rightarrow> constants \<Rightarrow> authCache \<Rightarrow> string \<Rightarrow> string \<Rightarrow> host \<Rightarrow> string list \<Rightarrow>
   'j accessTokenCacheItem list \<Rightarrow> error + 'j accessTokenCacheItem list" where
  "getAllAccessTokens_loop P K this cid home h [] results = Inr results"
| "getAllAccessTokens_loop P K this cid home h (key # keys) results =
     (case String_match P key cid of
        Inl e \<Rightarrow> Inl e
      | Inr m1 \<Rightarrow>
          if \<not> m1 then getAllAccessTokens_loop P K this cid home h keys results
          else
            (case String_match P key home of
               Inl e \<Rightarrow> Inl e
             | Inr m2 \<Rightarrow>
                 if \<not> m2 then getAllAccessTokens_loop P K this cid home h keys results
                 else
                   (case AuthCache_getItem P K this key False h of
                      Inl e \<Rightarrow> Inl e
                    | Inr value \<Rightarrow>
                        (case JSON_parse P key of
                           None \<Rightarrow> getAllAccessTokens_loop P K this cid home h keys results
                         | Some parseAtKey \<Rightarrow>
                             (case JSON_parse_item P value of
                                None \<Rightarrow>
                                  getAllAccessTokens_loop P K this cid home h keys results
                              | Some parsedValue \<Rightarrow>
                                  getAllAccessTokens_loop P K this cid home h keys
                                    (results @ [AccessTokenCacheItem parseAtKey parsedValue]))))))"

definition AuthCache_getAllAccessTokens ::
  "'j platform \<Rightarrow> constants \<Rightarrow> authCache \<Rightarrow> string \<Rightarrow> string \<Rightarrow> host \<Rightarrow>
   error + 'j accessTokenCacheItem list" where
  "AuthCache_getAllAccessTokens P K this cid home h =
     (case storageContents (cacheLocation this) h of
        Inl e \<Rightarrow> Inl e
      | Inr s \<Rightarrow> getAllAccessTokens_loop P K this cid home h (map fst s) [])"

section \<open>Storage (msal-core/src/Storage.ts)\<close>

text \<open>
  The constants of \<^verbatim>\<open>utils/Constants\<close> that \<^verbatim>\<open>Storage\<close> reads
  (\<^verbatim>\<open>Constants\<close>, \<^verbatim>\<open>CacheKeys\<close>), as parameters.
\<close>

record coreConstants =
  renewStatus :: string
  tokenRenewStatusInProgress :: string
  stateLogin :: string
  stateAcquireToken :: string
  nonceIdToken :: string
  loginRequest :: string
  resourceDelimiter :: string
  AUTHORITY :: string
  ACQUIRE_TOKEN_ACCOUNT :: string

text \<open>
  \<^verbatim>\<open>Storage.constructor(cacheLocation)\<close>, with \<open>location\<close> for the argument.
  \<open>instance\<close> is the static \<^verbatim>\<open>Storage.instance\<close>
  (the field of the object it holds, when there is one). Here the field is assigned
  before the test reads it.
\<close>

definition Storage_constructor ::
  "cacheLocation option \<Rightarrow> host \<Rightarrow> cacheLocation \<Rightarrow> error + cacheLocation" where
  "Storage_constructor instance h location =
     (case instance of
        Some existing \<Rightarrow> Inr existing
      | None \<Rightarrow>
          (let this_cacheLocation = Some location in
           if typeofIsString this_cacheLocation
           then (case window h of
                   None \<Rightarrow> Inl TypeError
                 | Some w \<Rightarrow>
                     if \<not> stringStorageSupported w this_cacheLocation
                     then Inl NoStorageSupportedError
                     else Inr location)
           else Inr location))"

definition Storage_removeItem :: "cacheLocation \<Rightarrow> string \<Rightarrow> host \<Rightarrow> error + host" where
  "Storage_removeItem loc key h =
     (case storageContents loc h of
        Inl e \<Rightarrow> Inl e
      | Inr s \<Rightarrow> Inr (putStorage loc (AList.delete key s) h))"

text \<open>\<^verbatim>\<open>Storage.setItemCookie\<close> (no path attribute) and \<^verbatim>\<open>Storage.clearCookie\<close>.\<close>

definition Storage_setItemCookie ::
  "'j platform \<Rightarrow> string \<Rightarrow> string \<Rightarrow> jsNumber option \<Rightarrow> host \<Rightarrow> host" where
  "Storage_setItemCookie P cName cValue expires h =
     (let cookieStr = cName @ ''='' @ cValue @ '';'';
          written =
            (case expires of
               None \<Rightarrow> cookieStr
             | Some e \<Rightarrow>
                 if truthy e
                 then cookieStr @ ''expires='' @ getCookieExpirationTime P h e @ '';''
                 else cookieStr)
      in h\<lparr>cookieAssignments := cookieAssignments h @ [written]\<rparr>)"

definition Storage_clearCookie :: "'j platform \<Rightarrow> coreConstants \<Rightarrow> host \<Rightarrow> host" where
  "Storage_clearCookie P C h =
     (let h1 = Storage_setItemCookie P (nonceIdToken C) [] (Some (Num (- 1))) h;
          h2 = Storage_setItemCookie P (stateLogin C) [] (Some (Num (- 1))) h1;
          h3 = Storage_setItemCookie P (loginRequest C) [] (Some (Num (- 1))) h2
      in Storage_setItemCookie P (stateAcquireToken C) [] (Some (Num (- 1))) h3)"

text \<open>\<^verbatim>\<open>Storage.getItemCookie\<close> and \<^verbatim>\<open>Storage.getItem\<close>.\<close>

definition Storage_getItemCookie :: "'j platform \<Rightarrow> string \<Rightarrow> host \<Rightarrow> string" where
  "Storage_getItemCookie P cName h =
     scanCookies (cName @ ''='') (split (document_cookie P (cookieAssignments h)) '';'')"

definition Storage_getItem ::
  "'j platform \<Rightarrow> cacheLocation \<Rightarrow> string \<Rightarrow> bool \<Rightarrow> host \<Rightarrow> error + string option" where
  "Storage_getItem P loc key enableCookieStorage h =
     (if enableCookieStorage \<and> Storage_getItemCookie P key h \<noteq> []
      then Inr (Some (Storage_getItemCookie P key h))
      else (case storageContents loc h of
              Inl e \<Rightarrow> Inl e
            | Inr s \<Rightarrow> Inr (map_of s key)))"

text \<open>
  \<^verbatim>\<open>Storage.getAllAccessTokens(clientId, homeAccountIdentifier)\<close>. The two
  \<^verbatim>\<open>JSON.parse\<close> calls stand in no \<^verbatim>\<open>try\<close>: a \<^verbatim>\<open>SyntaxError\<close> of either ends the
  call.
\<close>

fun Storage_getAllAccessTokens_loop ::
  "'j platform \<Rightarrow> cacheLocation \<Rightarrow> string \<Rightarrow> string \<Rightarrow> host \<Rightarrow> string list \<Rightarrow>
   'j accessTokenCacheItem list \<Rightarrow> error + 'j accessTokenCacheItem list" where
  "Storage_getAllAccessTokens_loop P loc cid home h [] results = Inr results"
| "Storage_getAllAccessTokens_loop P loc cid home h (key # keys) results =
     (case String_match P key cid of
        Inl e \<Rightarrow> Inl e
      | Inr m1 \<Rightarrow>
          if \<not> m1 then Storage_getAllAccessTokens_loop P loc cid home h keys results
          else
            (case String_match P key home of
               Inl e \<Rightarrow> Inl e
             | Inr m2 \<Rightarrow>
                 if \<not> m2 then Storage_getAllAccessTokens_loop P loc cid home h keys results
                 else
                   (case Storage_getItem P loc key False h of
                      Inl e \<Rightarrow> Inl e
                    | Inr None \<Rightarrow> Storage_getAllAccessTokens_loop P loc cid home h keys results
                    | Inr (Some v) \<Rightarrow>
                        if v = []
                        then Storage_getAllAccessTokens_loop P loc cid home h keys results
                        else
                          (case JSON_parse P key of
                             None \<Rightarrow> Inl SyntaxError
                           | Some parsedKey \<Rightarrow>
                               (case JSON_parse P v of
                                  None \<Rightarrow> Inl SyntaxError
                                | Some parsedValue \<Rightarrow>
                                    Storage_getAllAccessTokens_loop P loc cid home h keys
                                      (results @ [AccessTokenCacheItem parsedKey parsedValue]))))))"

definition Storage_getAllAccessTokens ::
  "'j platform \<Rightarrow> cacheLocation \<Rightarrow> string \<Rightarrow> string \<Rightarrow> host \<Rightarrow>
   error + 'j accessTokenCacheItem list" where
  "Storage_getAllAccessTokens P loc cid home h =
     (case storageContents loc h of
        Inl e \<Rightarrow> Inl e
      | Inr s \<Rightarrow> Storage_getAllAccessTokens_loop P loc cid home h (map fst s) [])"

text \<open>\<^verbatim>\<open>Storage.tokenRenewalInProgress(stateValue)\<close>, an \<^verbatim>\<open>async\<close> method.\<close>

definition Storage_tokenRenewalInProgress ::
  "coreConstants \<Rightarrow> cacheLocation \<Rightarrow> string \<Rightarrow> host \<Rightarrow> bool promise" where
  "Storage_tokenRenewalInProgress C loc stateValue h =
     Promise
       (case storageContents loc h of
          Inl e \<Rightarrow> Inl e
        | Inr s \<Rightarrow>
            Inr (case map_of s (renewStatus C @ stateValue) of
                   None \<Rightarrow> False
                 | Some r \<Rightarrow> \<not> (r = [] \<or> r \<noteq> tokenRenewStatusInProgress C)))"

text \<open>
  A call of an \<^verbatim>\<open>async\<close> method whose promise is dropped (no \<^verbatim>\<open>await\<close>): its
  effect on the host happens, and a rejection reaches nobody.
\<close>

definition detached :: "(host \<Rightarrow> error + host) \<Rightarrow> host \<Rightarrow> host" where
  "detached call h = (case call h of Inl e \<Rightarrow> h | Inr h' \<Rightarrow> h')"

text \<open>\<^verbatim>\<open>splitKey = key.split(Constants.resourceDelimiter)\<close> and the inner
  \<^verbatim>\<open>let state\<close>, which stays \<^verbatim>\<open>undefined\<close> unless there is a second piece.\<close>

definition embeddedState :: "coreConstants \<Rightarrow> string \<Rightarrow> string option" where
  "embeddedState C key =
     (let splitKey = split key (resourceDelimiter C) in
      if length splitKey > 1 then Some (splitKey ! 1) else None)"

text \<open>
  \<^verbatim>\<open>Storage.removeAcquireTokenEntries(state?)\<close>. The key filter compares the second
  \<^verbatim>\<open>indexOf\<close> with \<open>1\<close>, and the renewal test negates the promise of the
  \<^verbatim>\<open>async\<close> method; the four \<^verbatim>\<open>removeItem\<close> calls are not awaited.
\<close>

fun removeAcquireTokenEntries_loop ::
  "'j platform \<Rightarrow> coreConstants \<Rightarrow> cacheLocation \<Rightarrow> string option \<Rightarrow> string list \<Rightarrow>
   host \<Rightarrow> host" where
  "removeAcquireTokenEntries_loop P C loc state [] h = h"
| "removeAcquireTokenEntries_loop P C loc state (key # keys) h =
     (if (indexOf key (AUTHORITY C) \<noteq> - 1 \<or> indexOf key (ACQUIRE_TOKEN_ACCOUNT C) \<noteq> 1)
         \<and> (case state of None \<Rightarrow> True | Some st \<Rightarrow> st = [] \<or> indexOf key st \<noteq> - 1)
      then (case embeddedState C key of
              None \<Rightarrow> removeAcquireTokenEntries_loop P C loc state keys h
            | Some state' \<Rightarrow>
                if state' \<noteq> []
                   \<and> \<not> ToBoolean (Storage_tokenRenewalInProgress C loc state' h)
                then
                  (let h1 = detached (Storage_removeItem loc key) h;
                       h2 = detached (Storage_removeItem loc (renewStatus C @ state')) h1;
                       h3 = detached (Storage_removeItem loc (stateLogin C)) h2;
                       h4 = detached (Storage_removeItem loc (stateAcquireToken C)) h3
                   in removeAcquireTokenEntries_loop P C loc state keys
                        (Storage_setItemCookie P key [] (Some (Num (- 1))) h4))
                else removeAcquireTokenEntries_loop P C loc state keys h)
      else removeAcquireTokenEntries_loop P C loc state keys h)"

definition Storage_removeAcquireTokenEntries ::
  "'j platform \<Rightarrow> coreConstants \<Rightarrow> cacheLocation \<Rightarrow> string option \<Rightarrow> host \<Rightarrow> error + host" where
  "Storage_removeAcquireTokenEntries P C loc state h =
     (case storageContents loc h of
        Inl e \<Rightarrow> Inl e
      | Inr s \<Rightarrow>
          Inr (Storage_clearCookie P C
                 (removeAcquireTokenEntries_loop P C loc state (map fst s) h)))"

section \<open>What the specification says of the token scan\<close>

text \<open>
  The specification's description of \<^verbatim>\<open>getAllAccessTokens\<close>, to compare the loop with:
  of the entries whose key contains both identifiers as substrings, in enumeration
  order, the items decoded from key and value; an entry whose key or value does not
  decode is skipped.
\<close>

definition decodeEntry :: "'j platform \<Rightarrow> string \<times> string \<Rightarrow> 'j accessTokenCacheItem option" where
  "decodeEntry P entry =
     (case JSON_parse P (fst entry) of
        None \<Rightarrow> None
      | Some tokenKey \<Rightarrow>
          (case JSON_parse P (snd entry) of
             None \<Rightarrow> None
           | Some tokenValue \<Rightarrow> Some (AccessTokenCacheItem tokenKey tokenValue)))"

definition spec_getAllAccessTokens ::
  "'j platform \<Rightarrow> string \<Rightarrow> string \<Rightarrow> store \<Rightarrow> 'j accessTokenCacheItem list" where
  "spec_getAllAccessTokens P cid home s =
     List.map_filter (decodeEntry P) (filter (\<lambda>(k, v). sublist cid k \<and> sublist home k) s)"

section \<open>A concrete host for the examples\<close>

text \<open>
  The theorems below hold for every platform and every value of the constants. The
  examples evaluate the code on one concrete choice: the constants with the values
  upstream gives them, and a platform that is tabulated on the inputs the examples use.
\<close>

definition msalConstants :: constants where
  "msalConstants =
     \<lparr>cachePrefix = ''msal'', adalIdToken = ''adal.idtoken'', inProgress = ''inProgress'',
      RENEW_STATUS = ''token.renew.status'', INTERACTION_STATUS = ''interaction_status'',
      REDIRECT_REQUEST = ''redirect_request'', NONCE_IDTOKEN = ''nonce.idtoken'',
      STATE_LOGIN = ''state.login'', LOGIN_REQUEST = ''login.request'',
      STATE_ACQ_TOKEN = ''state.acquireToken''\<rparr>"

definition msalCoreConstants :: coreConstants where
  "msalCoreConstants =
     \<lparr>renewStatus = ''msal.token.renew.status'',
      tokenRenewStatusInProgress = ''In Progress'',
      stateLogin = ''msal.state.login'', stateAcquireToken = ''msal.state.acquireToken'',
      nonceIdToken = ''msal.nonce.idtoken'', loginRequest = ''msal.login.request'',
      resourceDelimiter = ''|'', AUTHORITY = ''msal.authority'',
      ACQUIRE_TOKEN_ACCOUNT = ''msal.acquireTokenAccount''\<rparr>"

datatype json = JString string | JObject "(string \<times> json) list"

text \<open>\<^verbatim>\<open>JSON.parse\<close> on the five JSON texts the examples store; every other string the
  examples pass to it is not JSON.\<close>

definition exampleJSON :: "string \<Rightarrow> json option" where
  \<open>exampleJSON =
     map_of
       [(''{"c":"app1","h":"acct1"}'', JObject [(''c'', JString ''app1''), (''h'', JString ''acct1'')]),
        (''{"c":"app1","h":"acct2"}'', JObject [(''c'', JString ''app1''), (''h'', JString ''acct2'')]),
        (''{"c":"app1","h":"uid-utid"}'', JObject [(''c'', JString ''app1''), (''h'', JString ''uid-utid'')]),
        (''{"c":"app1","h":"uid.utid"}'', JObject [(''c'', JString ''app1''), (''h'', JString ''uid.utid'')]),
        (''{"t":"tok"}'', JObject [(''t'', JString ''tok'')])]\<close>

text \<open>No example passes \<^verbatim>\<open>match\<close> a pattern with a syntax character other than the
  dot, so the platform's own search is never reached; here it rejects every pattern.\<close>

definition exampleRegExp :: "string \<Rightarrow> string \<Rightarrow> bool option" where
  "exampleRegExp pat str = None"

text \<open>A cookie store for assignments without an \<^verbatim>\<open>expires\<close> attribute: each
  assignment stores its \<^verbatim>\<open>name=value\<close> part (the text before the first semicolon)
  in place of an earlier cookie of that name, and reading lists the cookies.\<close>

definition storeCookie :: "string \<Rightarrow> (string \<times> string) list \<Rightarrow> (string \<times> string) list" where
  "storeCookie assignment jar =
     (let pair = takeWhile (\<lambda>c. c \<noteq> CHR '';'') assignment;
          name = takeWhile (\<lambda>c. c \<noteq> CHR ''='') pair
      in AList.update name (drop (length name + 1) pair) jar)"

fun joinCookies :: "string list \<Rightarrow> string" where
  "joinCookies [] = []"
| "joinCookies [c] = c"
| "joinCookies (c # d # ds) = c @ ''; '' @ joinCookies (d # ds)"

definition exampleCookieJar :: "string list \<Rightarrow> string" where
  "exampleCookieJar assignments =
     joinCookies (map (\<lambda>(name, v). name @ ''='' @ v) (fold storeCookie assignments []))"

text \<open>\<^verbatim>\<open>toUTCString\<close> one day before and one day after the epoch (the examples ask
  for no other date).\<close>

fun exampleUTC :: "jsNumber \<Rightarrow> string" where
  "exampleUTC (Num ms) =
     (if ms = - 86400000 then ''Wed, 31 Dec 1969 00:00:00 GMT''
      else if ms = 86400000 then ''Fri, 02 Jan 1970 00:00:00 GMT''
      else ''Thu, 01 Jan 1970 00:00:00 GMT'')"
| "exampleUTC t = ''Invalid Date''"

definition examplePlatform :: "json platform" where
  "examplePlatform =
     \<lparr>JSON_parse = exampleJSON, RegExp_search = exampleRegExp,
      document_cookie = exampleCookieJar, toUTCString = exampleUTC\<rparr>"

definition exampleCache :: "cacheLocation \<Rightarrow> authCache" where
  "exampleCache loc = \<lparr>cacheLocation = loc, clientId = ''app1'', rollbackEnabled = True\<rparr>"

text \<open>A browser whose local storage holds \<open>s\<close>; session storage is empty.\<close>

definition browser :: "store \<Rightarrow> host" where
  "browser s =
     \<lparr>window = Some \<lparr>localStorage = StorageArea s, sessionStorage = StorageArea []\<rparr>,
      customStorage = [], cookieAssignments = [], now = 0\<rparr>"

section \<open>Facts about strings\<close>

lemma indexOf_ge: "- 1 \<le> indexOf s pat"
  by (induction s) (auto simp: Let_def)

lemma indexOf_zero_iff: "indexOf s pat = 0 \<longleftrightarrow> prefix pat s"
proof (cases s)
  case Nil
  then show ?thesis by auto
next
  case (Cons c cs)
  have "- 1 \<le> indexOf cs pat" by (rule indexOf_ge)
  then show ?thesis using Cons by (auto simp: Let_def)
qed

lemma indexOf_found_iff: "indexOf s pat \<noteq> - 1 \<longleftrightarrow> sublist pat s"
proof (induction s)
  case Nil
  then show ?case by auto
next
  case (Cons c cs)
  have "- 1 \<le> indexOf cs pat" by (rule indexOf_ge)
  with Cons show ?case by (auto simp: Let_def sublist_Cons_right)
qed

section \<open>Facts about key namespacing\<close>

lemma generateCacheKey_structured:
  "JSON_parse P key = Some j \<Longrightarrow> generateCacheKey P K this key g = key"
  by (simp add: generateCacheKey_def)

lemma generateCacheKey_prefixed:
  "prefix (cachePrefix K) key \<or> prefix (adalIdToken K) key \<Longrightarrow>
   generateCacheKey P K this key g = key"
  by (auto simp: generateCacheKey_def indexOf_zero_iff split: option.splits)

lemma generateCacheKey_plain:
  "JSON_parse P key = None \<Longrightarrow> \<not> prefix (cachePrefix K) key \<Longrightarrow>
   \<not> prefix (adalIdToken K) key \<Longrightarrow>
   generateCacheKey P K this key g =
     (if g then cachePrefix K @ ''.'' @ clientId this @ ''.'' @ key
      else cachePrefix K @ ''.'' @ key)"
  by (simp add: generateCacheKey_def indexOf_zero_iff)

lemma generateCacheKey_fixed:
  "generateCacheKey P K this (generateCacheKey P K this key g) g' =
   generateCacheKey P K this key g"
proof (cases "JSON_parse P key")
  case (Some j)
  then show ?thesis by (simp add: generateCacheKey_structured)
next
  case None
  show ?thesis
  proof (cases "prefix (cachePrefix K) key \<or> prefix (adalIdToken K) key")
    case True
    then show ?thesis by (simp add: generateCacheKey_prefixed)
  next
    case False
    with None have "prefix (cachePrefix K) (generateCacheKey P K this key g)"
      by (simp add: generateCacheKey_plain)
    then show ?thesis by (simp add: generateCacheKey_prefixed)
  qed
qed

section \<open>Facts about the host\<close>

lemma cookieAssignments_putStorage:
  "cookieAssignments (putStorage loc s h) = cookieAssignments h"
  by (cases loc) (simp_all add: putStorage_def)

lemma now_putStorage: "now (putStorage loc s h) = now h"
  by (cases loc) (simp_all add: putStorage_def)

lemma storageContents_putStorage:
  "storageContents loc h = Inr s \<Longrightarrow> storageContents loc (putStorage loc s' h) = Inr s'"
  by (cases loc; cases "window h")
     (auto simp: storageContents_def getStorage_def putStorage_def split: area.splits)

lemma putStorage_putStorage: "putStorage loc s' (putStorage loc s h) = putStorage loc s' h"
  by (cases loc; cases "window h") (simp_all add: putStorage_def)

lemma putStorage_same: "storageContents loc h = Inr s \<Longrightarrow> putStorage loc s h = h"
  by (cases loc; cases "window h")
     (auto simp: storageContents_def getStorage_def putStorage_def split: area.splits)

lemma storageContents_cookie:
  "storageContents loc (h\<lparr>cookieAssignments := c\<rparr>) = storageContents loc h"
  by (cases loc) (simp_all add: storageContents_def getStorage_def)

lemma BrowserStorage_removeItem_eq:
  "storageContents loc h = Inr s \<Longrightarrow>
   BrowserStorage_removeItem loc key h = Inr (putStorage loc (AList.delete key s) h)"
  by (simp add: BrowserStorage_removeItem_def)

lemma delete_filter: "AList.delete key s = filter (\<lambda>(k, v). k \<noteq> key) s"
  by (induction s) (auto simp: AList.delete_eq)

lemma storageContents_browser: "storageContents LocalStorage (browser s) = Inr s"
  by (simp add: storageContents_def getStorage_def browser_def)

lemma putStorage_browser: "putStorage LocalStorage s' (browser s) = browser s'"
  by (simp add: putStorage_def browser_def)

section \<open>Key namespacing is idempotent\<close>

text \<open>
  Claim C6. \<^verbatim>\<open>generateCacheKey\<close> applied to its own output returns the output
  unchanged, for every key, whichever generation either application asks for and
  whatever \<^verbatim>\<open>JSON.parse\<close> accepts. In particular a key that parses as JSON, and a
  key that starts with the cache prefix or with the legacy-library prefix, is returned
  as it is.
\<close>

theorem generateCacheKey_idempotent:
  "generateCacheKey P K this (generateCacheKey P K this key g) g'
     = generateCacheKey P K this key g
   \<and> (JSON_parse P key \<noteq> None \<longrightarrow> generateCacheKey P K this key g = key)
   \<and> (prefix (cachePrefix K) key \<or> prefix (adalIdToken K) key
        \<longrightarrow> generateCacheKey P K this key g = key)"
  using generateCacheKey_fixed [of P K this key g g']
        generateCacheKey_structured [of P key _ K this g]
        generateCacheKey_prefixed [of K key P this g]
  by auto

theorem generateCacheKey_idempotent_witness:
  \<open>JSON_parse examplePlatform ''{"t":"tok"}'' \<noteq> None
   \<and> generateCacheKey examplePlatform msalConstants (exampleCache LocalStorage)
       ''{"t":"tok"}'' True = ''{"t":"tok"}''
   \<and> generateCacheKey examplePlatform msalConstants (exampleCache LocalStorage)
       ''idtoken'' True = ''msal.app1.idtoken''
   \<and> generateCacheKey examplePlatform msalConstants (exampleCache LocalStorage)
       ''msal.app1.idtoken'' False = ''msal.app1.idtoken''\<close>
proof -
  have parsed: \<open>JSON_parse examplePlatform ''{"t":"tok"}'' \<noteq> None\<close>
    by (simp add: examplePlatform_def exampleJSON_def)
  have structured:
    \<open>generateCacheKey examplePlatform msalConstants (exampleCache LocalStorage)
       ''{"t":"tok"}'' True = ''{"t":"tok"}''\<close>
    using generateCacheKey_idempotent
            [of examplePlatform msalConstants "exampleCache LocalStorage" _ True True] parsed
    by blast
  have plain:
    "generateCacheKey examplePlatform msalConstants (exampleCache LocalStorage)
       ''idtoken'' True = ''msal.app1.idtoken''"
    by (simp add: generateCacheKey_def examplePlatform_def exampleJSON_def
          msalConstants_def exampleCache_def)
  have again:
    "generateCacheKey examplePlatform msalConstants (exampleCache LocalStorage)
       ''msal.app1.idtoken'' False = ''msal.app1.idtoken''"
    using generateCacheKey_idempotent
            [of examplePlatform msalConstants "exampleCache LocalStorage" "''idtoken''"
               True False]
    by (simp add: plain)
  show ?thesis using parsed structured plain again by simp
qed

section \<open>Resetting the cache\<close>

lemma resetCacheItems_loop_eq:
  "storageContents loc h = Inr s \<Longrightarrow>
   resetCacheItems_loop K loc keys h =
     Inr (putStorage loc
            (filter (\<lambda>(k, v). \<not> (k \<in> set keys \<and> indexOf k (cachePrefix K) \<noteq> - 1)) s) h)"
proof (induction keys arbitrary: h s)
  case Nil
  then show ?case by (simp add: putStorage_same)
next
  case (Cons key keys)
  show ?case
  proof (cases "indexOf key (cachePrefix K) \<noteq> - 1")
    case True
    let ?h1 = "putStorage loc (AList.delete key s) h"
    have c1: "storageContents loc ?h1 = Inr (AList.delete key s)"
      using Cons.prems by (rule storageContents_putStorage)
    have "resetCacheItems_loop K loc (key # keys) h = resetCacheItems_loop K loc keys ?h1"
      using True Cons.prems by (simp add: BrowserStorage_removeItem_eq)
    also have "\<dots> = Inr (putStorage loc
        (filter (\<lambda>(k, v). \<not> (k \<in> set keys \<and> indexOf k (cachePrefix K) \<noteq> - 1))
           (AList.delete key s)) ?h1)"
      using c1 by (rule Cons.IH)
    also have "filter (\<lambda>(k, v). \<not> (k \<in> set keys \<and> indexOf k (cachePrefix K) \<noteq> - 1))
           (AList.delete key s)
        = filter (\<lambda>(k, v). \<not> (k \<in> set (key # keys) \<and> indexOf k (cachePrefix K) \<noteq> - 1)) s"
      using True by (auto simp: delete_filter intro!: filter_cong)
    finally show ?thesis by (simp add: putStorage_putStorage)
  next
    case False
    have "resetCacheItems_loop K loc (key # keys) h = resetCacheItems_loop K loc keys h"
      using False by simp
    also have "\<dots> = Inr (putStorage loc
        (filter (\<lambda>(k, v). \<not> (k \<in> set keys \<and> indexOf k (cachePrefix K) \<noteq> - 1)) s) h)"
      using Cons.prems by (rule Cons.IH)
    also have "filter (\<lambda>(k, v). \<not> (k \<in> set keys \<and> indexOf k (cachePrefix K) \<noteq> - 1)) s
        = filter (\<lambda>(k, v). \<not> (k \<in> set (key # keys) \<and> indexOf k (cachePrefix K) \<noteq> - 1)) s"
      using False by (auto intro!: filter_cong)
    finally show ?thesis .
  qed
qed

text \<open>
  Claim C7. On a backend whose storage area holds \<open>s\<close>, \<^verbatim>\<open>resetCacheItems\<close>
  returns normally and leaves in the area exactly the entries of \<open>s\<close> whose key does
  not contain the cache prefix, in their order and with their values: a key that
  contains the prefix is gone, every other key reads as before. Nothing else of the
  host changes.
\<close>

theorem resetCacheItems_removes_prefixed:
  assumes "storageContents (cacheLocation this) h = Inr s"
  shows "AuthCache_resetCacheItems K this h =
           Inr (putStorage (cacheLocation this)
                  (filter (\<lambda>(k, v). \<not> sublist (cachePrefix K) k) s) h)
         \<and> storageContents (cacheLocation this)
             (putStorage (cacheLocation this)
                (filter (\<lambda>(k, v). \<not> sublist (cachePrefix K) k) s) h)
           = Inr (filter (\<lambda>(k, v). \<not> sublist (cachePrefix K) k) s)
         \<and> map_of (filter (\<lambda>(k, v). \<not> sublist (cachePrefix K) k) s) key
           = (if sublist (cachePrefix K) key then None else map_of s key)"
proof -
  have "filter (\<lambda>(k, v). \<not> (k \<in> set (map fst s) \<and> indexOf k (cachePrefix K) \<noteq> - 1)) s
        = filter (\<lambda>(k, v). \<not> sublist (cachePrefix K) k) s"
    by (rule filter_cong) (force simp: indexOf_found_iff)+
  then have "AuthCache_resetCacheItems K this h =
           Inr (putStorage (cacheLocation this)
                  (filter (\<lambda>(k, v). \<not> sublist (cachePrefix K) k) s) h)"
    using assms by (simp add: AuthCache_resetCacheItems_def resetCacheItems_loop_eq)
  moreover have "map_of (filter (\<lambda>(k, v). \<not> sublist (cachePrefix K) k) s) key
           = (if sublist (cachePrefix K) key then None else map_of s key)"
    by (induction s) auto
  ultimately show ?thesis using assms by (simp add: storageContents_putStorage)
qed

theorem resetCacheItems_removes_prefixed_witness:
  "storageContents LocalStorage
     (browser [(''msal.foo'', ''1''), (''unrelated.bar'', ''2'')])
     = Inr [(''msal.foo'', ''1''), (''unrelated.bar'', ''2'')]
   \<and> AuthCache_resetCacheItems msalConstants (exampleCache LocalStorage)
       (browser [(''msal.foo'', ''1''), (''unrelated.bar'', ''2'')])
     = Inr (browser [(''unrelated.bar'', ''2'')])"
proof -
  have loc: "cacheLocation (exampleCache LocalStorage) = LocalStorage"
    by (simp add: exampleCache_def)
  have area: "storageContents (cacheLocation (exampleCache LocalStorage))
      (browser [(''msal.foo'', ''1''), (''unrelated.bar'', ''2'')])
      = Inr [(''msal.foo'', ''1''), (''unrelated.bar'', ''2'')]"
    by (simp add: loc storageContents_browser)
  show ?thesis
    using resetCacheItems_removes_prefixed [OF area, of msalConstants "''unrelated.bar''"] area
    by (simp add: loc putStorage_browser msalConstants_def sublist_Cons_right)
qed

section \<open>Writing, reading and removing one entry\<close>

lemma storageContents_BrowserStorage_setItemCookie:
  "storageContents loc (BrowserStorage_setItemCookie P n v e h) = storageContents loc h"
  by (simp add: BrowserStorage_setItemCookie_def storageContents_cookie)

lemma storageContents_AuthCache_setItemCookie:
  "storageContents loc (AuthCache_setItemCookie P K this n v e h) = storageContents loc h"
  by (simp add: AuthCache_setItemCookie_def Let_def storageContents_BrowserStorage_setItemCookie)

lemma BrowserStorage_setItem_eq:
  "storageContents loc h = Inr s \<Longrightarrow>
   BrowserStorage_setItem f loc key value mirror h =
     Inr (if mirror then f key value None (putStorage loc (AList.update key value s) h)
          else putStorage loc (AList.update key value s) h)"
  by (simp add: BrowserStorage_setItem_def)

lemma AuthCache_removeItem_eq:
  assumes "storageContents (cacheLocation this) h = Inr s"
  shows "AuthCache_removeItem P K this key h =
     Inr (putStorage (cacheLocation this)
            (if rollbackEnabled this
             then AList.delete (generateCacheKey P K this key False)
                    (AList.delete (generateCacheKey P K this key True) s)
             else AList.delete (generateCacheKey P K this key True) s) h)"
  using assms
  by (simp add: AuthCache_removeItem_def BrowserStorage_removeItem_eq
        storageContents_putStorage putStorage_putStorage)

lemma AuthCache_setItem_storage:
  assumes "storageContents (cacheLocation this) h = Inr s"
  shows "\<exists>h'. AuthCache_setItem P K this key value mirror h = Inr h'
           \<and> storageContents (cacheLocation this) h' =
               Inr (if rollbackEnabled this
                    then AList.update (generateCacheKey P K this key False) value
                           (AList.update (generateCacheKey P K this key True) value s)
                    else AList.update (generateCacheKey P K this key True) value s)
           \<and> (\<not> mirror \<longrightarrow> cookieAssignments h' = cookieAssignments h)"
proof -
  let ?loc = "cacheLocation this"
  let ?cur = "generateCacheKey P K this key True"
  let ?leg = "generateCacheKey P K this key False"
  let ?f = "AuthCache_setItemCookie P K this"
  let ?h1 = "if mirror then ?f ?cur value None (putStorage ?loc (AList.update ?cur value s) h)
             else putStorage ?loc (AList.update ?cur value s) h"
  have s1: "BrowserStorage_setItem ?f ?loc ?cur value mirror h = Inr ?h1"
    using assms by (rule BrowserStorage_setItem_eq)
  have c1: "storageContents ?loc ?h1 = Inr (AList.update ?cur value s)"
    using assms by (simp add: storageContents_AuthCache_setItemCookie storageContents_putStorage)
  have k1: "\<not> mirror \<Longrightarrow> cookieAssignments ?h1 = cookieAssignments h"
    by (simp add: cookieAssignments_putStorage)
  show ?thesis
  proof (cases "rollbackEnabled this")
    case False
    then show ?thesis using s1 c1 k1 by (simp add: AuthCache_setItem_def)
  next
    case True
    let ?h2 = "if mirror
               then ?f ?leg value None
                      (putStorage ?loc (AList.update ?leg value (AList.update ?cur value s)) ?h1)
               else putStorage ?loc (AList.update ?leg value (AList.update ?cur value s)) ?h1"
    have s2: "BrowserStorage_setItem ?f ?loc ?leg value mirror ?h1 = Inr ?h2"
      using c1 by (rule BrowserStorage_setItem_eq)
    have c2: "storageContents ?loc ?h2 =
                Inr (AList.update ?leg value (AList.update ?cur value s))"
      using storageContents_putStorage [OF c1]
      by (cases mirror) (simp_all add: storageContents_AuthCache_setItemCookie)
    have k2: "\<not> mirror \<Longrightarrow> cookieAssignments ?h2 = cookieAssignments h"
      by (simp add: cookieAssignments_putStorage)
    have "AuthCache_setItem P K this key value mirror h = Inr ?h2"
      using True s1 s2 by (simp add: AuthCache_setItem_def)
    then show ?thesis using True c2 k2 by auto
  qed
qed

lemma resetTempCacheItems_loop_skips:
  "resetTempCacheItems_loop P K this state keys h = Inr h"
  by (induction keys) (simp_all add: AuthCache_tokenRenewalInProgress_def)

lemma AuthCache_resetTempCacheItems_eq:
  assumes "storageContents (cacheLocation this) h = Inr s"
  shows "AuthCache_resetTempCacheItems P K this state h =
     Inr (putStorage (cacheLocation this)
            (if rollbackEnabled this
             then AList.delete (generateCacheKey P K this (REDIRECT_REQUEST K) False)
                   (AList.delete (generateCacheKey P K this (REDIRECT_REQUEST K) True)
                     (AList.delete (generateCacheKey P K this (INTERACTION_STATUS K) False)
                       (AList.delete (generateCacheKey P K this (INTERACTION_STATUS K) True) s)))
             else AList.delete (generateCacheKey P K this (REDIRECT_REQUEST K) True)
                    (AList.delete (generateCacheKey P K this (INTERACTION_STATUS K) True) s)) h)"
  using assms
  by (simp add: AuthCache_resetTempCacheItems_def resetTempCacheItems_loop_skips
        AuthCache_removeItem_eq storageContents_putStorage putStorage_putStorage)


section \<open>Reaping the temporary entries\<close>

text \<open>
  Claim C1, amended. Let the renewal flag of a request state \<open>state\<close> be set: the promise
  of \<^verbatim>\<open>tokenRenewalInProgress(state)\<close> settles to \<^verbatim>\<open>true\<close>, that is, the
  renewal-status entry of \<open>state\<close> holds the in-progress sentinel. Then no call of
  \<^verbatim>\<open>resetTempCacheItems\<close>, whatever its argument \<open>arg\<close>, deletes or changes an entry
  whose key contains \<open>state\<close>, except the physical keys of the two global transient
  entries (\<^verbatim>\<open>interactionStatus\<close> and \<^verbatim>\<open>redirectRequest\<close>, in either schema), which
  every call removes after the scan. The call returns normally and writes no cookie.
\<close>

theorem resetTempCacheItems_keeps_entries_in_renewal:
  assumes area: "storageContents (cacheLocation this) h = Inr s"
    and renewal: "AuthCache_tokenRenewalInProgress P K this state h = Promise (Inr True)"
    and tagged: "sublist state key"
    and notGlobal:
      "key \<notin> {generateCacheKey P K this (INTERACTION_STATUS K) True,
               generateCacheKey P K this (INTERACTION_STATUS K) False,
               generateCacheKey P K this (REDIRECT_REQUEST K) True,
               generateCacheKey P K this (REDIRECT_REQUEST K) False}"
  shows "\<exists>h' s'. AuthCache_resetTempCacheItems P K this arg h = Inr h'
           \<and> storageContents (cacheLocation this) h' = Inr s'
           \<and> map_of s' key = map_of s key
           \<and> cookieAssignments h' = cookieAssignments h"
proof -
  let ?s' = "if rollbackEnabled this
             then AList.delete (generateCacheKey P K this (REDIRECT_REQUEST K) False)
                   (AList.delete (generateCacheKey P K this (REDIRECT_REQUEST K) True)
                     (AList.delete (generateCacheKey P K this (INTERACTION_STATUS K) False)
                       (AList.delete (generateCacheKey P K this (INTERACTION_STATUS K) True) s)))
             else AList.delete (generateCacheKey P K this (REDIRECT_REQUEST K) True)
                    (AList.delete (generateCacheKey P K this (INTERACTION_STATUS K) True) s)"
  have run: "AuthCache_resetTempCacheItems P K this arg h =
               Inr (putStorage (cacheLocation this) ?s' h)"
    using area by (rule AuthCache_resetTempCacheItems_eq)
  have kept: "map_of ?s' key = map_of s key"
    using notGlobal by (simp add: delete_conv')
  have "storageContents (cacheLocation this) (putStorage (cacheLocation this) ?s' h) = Inr ?s'"
    using area by (rule storageContents_putStorage)
  with run kept show ?thesis
    using cookieAssignments_putStorage by blast
qed

theorem resetTempCacheItems_keeps_entries_in_renewal_witness:
  "AuthCache_tokenRenewalInProgress examplePlatform msalConstants (exampleCache LocalStorage)
     ''stateA''
     (browser [(''msal.app1.token.renew.status|stateA'', ''inProgress''),
               (''msal.app1.authority|stateA'', ''https://login/'')])
     = Promise (Inr True)
   \<and> sublist ''stateA'' ''msal.app1.authority|stateA''
   \<and> (\<exists>h' s'. AuthCache_resetTempCacheItems examplePlatform msalConstants
          (exampleCache LocalStorage) ''stateA''
          (browser [(''msal.app1.token.renew.status|stateA'', ''inProgress''),
                    (''msal.app1.authority|stateA'', ''https://login/'')]) = Inr h'
        \<and> storageContents LocalStorage h' = Inr s'
        \<and> map_of s' ''msal.app1.authority|stateA'' = Some ''https://login/'')"
proof -
  let ?cache = "exampleCache LocalStorage"
  let ?h = "browser [(''msal.app1.token.renew.status|stateA'', ''inProgress''),
                     (''msal.app1.authority|stateA'', ''https://login/'')]"
  have loc: "cacheLocation ?cache = LocalStorage"
    by (simp add: exampleCache_def)
  have area: "storageContents (cacheLocation ?cache) ?h =
      Inr [(''msal.app1.token.renew.status|stateA'', ''inProgress''),
           (''msal.app1.authority|stateA'', ''https://login/'')]"
    by (simp add: loc storageContents_browser)
  have renewal: "AuthCache_tokenRenewalInProgress examplePlatform msalConstants ?cache
      ''stateA'' ?h = Promise (Inr True)"
    by (simp add: AuthCache_tokenRenewalInProgress_def AuthCache_getItem_def
          BrowserStorage_getItem_def generateCacheKey_def examplePlatform_def exampleJSON_def
          msalConstants_def exampleCache_def storageContents_browser)
  have tagged: "sublist ''stateA'' ''msal.app1.authority|stateA''"
    by (simp add: sublist_Cons_right)
  have notGlobal: "''msal.app1.authority|stateA'' \<notin>
      {generateCacheKey examplePlatform msalConstants ?cache (INTERACTION_STATUS msalConstants) True,
       generateCacheKey examplePlatform msalConstants ?cache (INTERACTION_STATUS msalConstants) False,
       generateCacheKey examplePlatform msalConstants ?cache (REDIRECT_REQUEST msalConstants) True,
       generateCacheKey examplePlatform msalConstants ?cache (REDIRECT_REQUEST msalConstants) False}"
    by (simp add: generateCacheKey_def examplePlatform_def exampleJSON_def
          msalConstants_def exampleCache_def)
  from resetTempCacheItems_keeps_entries_in_renewal
         [OF area renewal tagged notGlobal, of "''stateA''"]
  obtain h' s' where run:
      "AuthCache_resetTempCacheItems examplePlatform msalConstants ?cache ''stateA'' ?h = Inr h'"
    and area': "storageContents LocalStorage h' = Inr s'"
    and same: "map_of s' ''msal.app1.authority|stateA'' =
               map_of [(''msal.app1.token.renew.status|stateA'', ''inProgress''),
                       (''msal.app1.authority|stateA'', ''https://login/'')]
                 ''msal.app1.authority|stateA''"
    unfolding loc by blast
  from same have "map_of s' ''msal.app1.authority|stateA'' = Some ''https://login/''"
    by simp
  with run area' renewal tagged show ?thesis by blast
qed

text \<open>
  Claim C1 as stated fails: the key of the global entry \<^verbatim>\<open>msal.app1.redirect_request\<close>
  contains the state \<^verbatim>\<open>request\<close>, whose renewal flag is set, and
  \<^verbatim>\<open>resetTempCacheItems("request")\<close> deletes the entry all the same, by the
  \<^verbatim>\<open>removeItem\<close> that follows the scan.
\<close>

theorem resetTempCacheItems_global_entry_counterexample:
  "AuthCache_tokenRenewalInProgress examplePlatform msalConstants (exampleCache LocalStorage)
     ''request''
     (browser [(''msal.app1.token.renew.status|request'', ''inProgress''),
               (''msal.app1.redirect_request'', ''https://app/'')])
     = Promise (Inr True)
   \<and> sublist ''request'' ''msal.app1.redirect_request''
   \<and> AuthCache_resetTempCacheItems examplePlatform msalConstants (exampleCache LocalStorage)
       ''request''
       (browser [(''msal.app1.token.renew.status|request'', ''inProgress''),
                 (''msal.app1.redirect_request'', ''https://app/'')])
     = Inr (browser [(''msal.app1.token.renew.status|request'', ''inProgress'')])
   \<and> map_of [(''msal.app1.token.renew.status|request'', ''inProgress'')]
       ''msal.app1.redirect_request'' = None"
proof -
  let ?cache = "exampleCache LocalStorage"
  let ?s = "[(''msal.app1.token.renew.status|request'', ''inProgress''),
             (''msal.app1.redirect_request'', ''https://app/'')]"
  have loc: "cacheLocation ?cache = LocalStorage"
    by (simp add: exampleCache_def)
  have area: "storageContents (cacheLocation ?cache) (browser ?s) = Inr ?s"
    by (simp add: loc storageContents_browser)
  have flag: "AuthCache_tokenRenewalInProgress examplePlatform msalConstants ?cache
      ''request'' (browser ?s) = Promise (Inr True)"
    by (simp add: AuthCache_tokenRenewalInProgress_def AuthCache_getItem_def
          BrowserStorage_getItem_def generateCacheKey_def examplePlatform_def exampleJSON_def
          msalConstants_def exampleCache_def storageContents_browser)
  have tagged: "sublist ''request'' ''msal.app1.redirect_request''"
    by (simp add: sublist_Cons_right)
  have run: "AuthCache_resetTempCacheItems examplePlatform msalConstants ?cache ''request''
      (browser ?s) = Inr (browser [(''msal.app1.token.renew.status|request'', ''inProgress'')])"
    unfolding AuthCache_resetTempCacheItems_eq [OF area]
    by (simp add: putStorage_browser generateCacheKey_def examplePlatform_def
          exampleJSON_def msalConstants_def exampleCache_def)
  show ?thesis using flag tagged run by simp
qed

text \<open>
  Claim C2, evaluated. The renewal flag of \<^verbatim>\<open>stateA\<close> is clear and the key of the
  authority entry contains \<^verbatim>\<open>stateA\<close>, yet \<^verbatim>\<open>resetTempCacheItems("stateA")\<close>
  leaves the entry in place; only the global \<^verbatim>\<open>interaction_status\<close> entry is
  removed. The loop's condition negates the promise of the \<^verbatim>\<open>async\<close> method
  \<^verbatim>\<open>tokenRenewalInProgress\<close> (see \<open>resetTempCacheItems_loop_skips\<close>), so its body
  never runs.
\<close>

theorem resetTempCacheItems_leaves_cleared_state:
  "AuthCache_tokenRenewalInProgress examplePlatform msalConstants (exampleCache LocalStorage)
     ''stateA''
     (browser [(''msal.app1.authority|stateA'', ''https://login/''),
               (''msal.app1.interaction_status'', ''inProgress'')])
     = Promise (Inr False)
   \<and> indexOf ''msal.app1.authority|stateA'' ''stateA'' \<noteq> - 1
   \<and> AuthCache_resetTempCacheItems examplePlatform msalConstants (exampleCache LocalStorage)
       ''stateA''
       (browser [(''msal.app1.authority|stateA'', ''https://login/''),
                 (''msal.app1.interaction_status'', ''inProgress'')])
     = Inr (browser [(''msal.app1.authority|stateA'', ''https://login/'')])"
proof -
  let ?cache = "exampleCache LocalStorage"
  let ?s = "[(''msal.app1.authority|stateA'', ''https://login/''),
             (''msal.app1.interaction_status'', ''inProgress'')]"
  have loc: "cacheLocation ?cache = LocalStorage"
    by (simp add: exampleCache_def)
  have area: "storageContents (cacheLocation ?cache) (browser ?s) = Inr ?s"
    by (simp add: loc storageContents_browser)
  have flag: "AuthCache_tokenRenewalInProgress examplePlatform msalConstants ?cache
      ''stateA'' (browser ?s) = Promise (Inr False)"
    by (simp add: AuthCache_tokenRenewalInProgress_def AuthCache_getItem_def
          BrowserStorage_getItem_def generateCacheKey_def examplePlatform_def exampleJSON_def
          msalConstants_def exampleCache_def storageContents_browser)
  have tagged: "indexOf ''msal.app1.authority|stateA'' ''stateA'' \<noteq> - 1"
    by (simp add: indexOf_found_iff sublist_Cons_right)
  have run: "AuthCache_resetTempCacheItems examplePlatform msalConstants ?cache ''stateA''
      (browser ?s) = Inr (browser [(''msal.app1.authority|stateA'', ''https://login/'')])"
    unfolding AuthCache_resetTempCacheItems_eq [OF area]
    by (simp add: putStorage_browser generateCacheKey_def examplePlatform_def
          exampleJSON_def msalConstants_def exampleCache_def)
  show ?thesis using flag tagged run by simp
qed

section \<open>Construction\<close>

lemma BrowserStorage_constructor_eq:
  "BrowserStorage_constructor h loc =
     (case window h of None \<Rightarrow> Inl NoWindowObjectError | Some w \<Rightarrow> Inr loc)"
  by (simp add: BrowserStorage_constructor_def split: option.splits)

text \<open>
  Claim C3, evaluated. The window exposes neither storage area (one is
  \<^verbatim>\<open>undefined\<close>, the other \<^verbatim>\<open>null\<close>), and \<^verbatim>\<open>BrowserStorage.constructor\<close> still
  returns the object for \<^verbatim>\<open>"localStorage"\<close> and for \<^verbatim>\<open>"sessionStorage"\<close>: it tests
  \<^verbatim>\<open>this.cacheLocation\<close> before assigning it (\<open>BrowserStorage_constructor_eq\<close>: the
  only error it ever raises is the one for a missing window). The older
  \<^verbatim>\<open>Storage.constructor\<close>, which assigns first, raises on the same window.
\<close>

theorem BrowserStorage_constructor_accepts_missing_area:
  "BrowserStorage_constructor
     \<lparr>window = Some \<lparr>localStorage = Undefined, sessionStorage = Null\<rparr>,
      customStorage = [], cookieAssignments = [], now = 0\<rparr> LocalStorage = Inr LocalStorage
   \<and> BrowserStorage_constructor
     \<lparr>window = Some \<lparr>localStorage = Undefined, sessionStorage = Null\<rparr>,
      customStorage = [], cookieAssignments = [], now = 0\<rparr> SessionStorage = Inr SessionStorage
   \<and> Storage_constructor None
     \<lparr>window = Some \<lparr>localStorage = Undefined, sessionStorage = Null\<rparr>,
      customStorage = [], cookieAssignments = [], now = 0\<rparr> LocalStorage
     = Inl NoStorageSupportedError"
  by (simp add: BrowserStorage_constructor_def Storage_constructor_def
        stringStorageSupported_def)

section \<open>Writes in migration mode\<close>

lemma namespaced_keys_differ: "p @ ''.'' @ c @ ''.'' @ k \<noteq> p @ ''.'' @ k"
proof
  assume "p @ ''.'' @ c @ ''.'' @ k = p @ ''.'' @ k"
  then have "length (p @ ''.'' @ c @ ''.'' @ k) = length (p @ ''.'' @ k)" by simp
  then show False by simp
qed

text \<open>
  Claim C4, amended. In migration mode, on a backend whose storage area exists,
  \<^verbatim>\<open>setItem(key, value)\<close> writes \<open>value\<close> under \<^verbatim>\<open>generateCacheKey(key, true)\<close> and
  then under \<^verbatim>\<open>generateCacheKey(key, false)\<close> and changes no other key, and a following
  \<^verbatim>\<open>removeItem(key)\<close> deletes both. For a key that does not parse as JSON and starts
  neither with the cache prefix nor with the legacy-library prefix, these are the two
  distinct physical keys \<^verbatim>\<open><prefix>.<clientId>.<key>\<close> and \<^verbatim>\<open><prefix>.<key>\<close>: exactly two
  entries. For a key that parses as JSON, or that already starts with one of the two
  prefixes, both are the key itself: exactly one entry.
\<close>

theorem setItem_removeItem_migration:
  fixes P :: "'j platform"
  defines "cur \<equiv> \<lambda>K this key. generateCacheKey P K this key True"
    and "leg \<equiv> \<lambda>K this key. generateCacheKey P K this key False"
  assumes migration: "rollbackEnabled this"
    and area: "storageContents (cacheLocation this) h = Inr s"
  shows "(\<exists>h' h''. AuthCache_setItem P K this key value mirror h = Inr h'
           \<and> storageContents (cacheLocation this) h' =
               Inr (AList.update (leg K this key) value
                     (AList.update (cur K this key) value s))
           \<and> AuthCache_removeItem P K this key h' = Inr h''
           \<and> storageContents (cacheLocation this) h'' =
               Inr (AList.delete (leg K this key) (AList.delete (cur K this key)
                     (AList.update (leg K this key) value
                       (AList.update (cur K this key) value s)))))
       \<and> map_of (AList.update (leg K this key) value (AList.update (cur K this key) value s))
           = (map_of s)(cur K this key \<mapsto> value, leg K this key \<mapsto> value)
       \<and> map_of (AList.delete (leg K this key) (AList.delete (cur K this key)
                  (AList.update (leg K this key) value
                    (AList.update (cur K this key) value s))))
           = (map_of s)(cur K this key := None, leg K this key := None)
       \<and> (JSON_parse P key = None \<and> \<not> prefix (cachePrefix K) key
             \<and> \<not> prefix (adalIdToken K) key
           \<longrightarrow> cur K this key = cachePrefix K @ ''.'' @ clientId this @ ''.'' @ key
               \<and> leg K this key = cachePrefix K @ ''.'' @ key
               \<and> cur K this key \<noteq> leg K this key)
       \<and> (JSON_parse P key \<noteq> None \<or> prefix (cachePrefix K) key
             \<or> prefix (adalIdToken K) key
           \<longrightarrow> cur K this key = key \<and> leg K this key = key)"
proof -
  let ?cur = "generateCacheKey P K this key True"
  let ?leg = "generateCacheKey P K this key False"
  from AuthCache_setItem_storage [OF area, of P K key "value" mirror] migration
  obtain h' where set: "AuthCache_setItem P K this key value mirror h = Inr h'"
    and area': "storageContents (cacheLocation this) h' =
                  Inr (AList.update ?leg value (AList.update ?cur value s))"
    by auto
  have "AuthCache_removeItem P K this key h' =
          Inr (putStorage (cacheLocation this)
                 (AList.delete ?leg (AList.delete ?cur
                    (AList.update ?leg value (AList.update ?cur value s)))) h')"
    using AuthCache_removeItem_eq [OF area', of P K key] migration by simp
  moreover have "storageContents (cacheLocation this)
          (putStorage (cacheLocation this)
             (AList.delete ?leg (AList.delete ?cur
                (AList.update ?leg value (AList.update ?cur value s)))) h')
        = Inr (AList.delete ?leg (AList.delete ?cur
                (AList.update ?leg value (AList.update ?cur value s))))"
    using area' by (rule storageContents_putStorage)
  ultimately have both: "\<exists>h' h''. AuthCache_setItem P K this key value mirror h = Inr h'
           \<and> storageContents (cacheLocation this) h' =
               Inr (AList.update ?leg value (AList.update ?cur value s))
           \<and> AuthCache_removeItem P K this key h' = Inr h''
           \<and> storageContents (cacheLocation this) h'' =
               Inr (AList.delete ?leg (AList.delete ?cur
                     (AList.update ?leg value (AList.update ?cur value s))))"
    using set area' by blast
  have written: "map_of (AList.update ?leg value (AList.update ?cur value s))
           = (map_of s)(?cur \<mapsto> value, ?leg \<mapsto> value)"
    by (simp add: update_conv')
  have removed: "map_of (AList.delete ?leg (AList.delete ?cur
                  (AList.update ?leg value (AList.update ?cur value s))))
           = (map_of s)(?cur := None, ?leg := None)"
    by (auto simp: update_conv' delete_conv' fun_eq_iff)
  have plain: "JSON_parse P key = None \<and> \<not> prefix (cachePrefix K) key
           \<and> \<not> prefix (adalIdToken K) key
         \<longrightarrow> ?cur = cachePrefix K @ ''.'' @ clientId this @ ''.'' @ key
             \<and> ?leg = cachePrefix K @ ''.'' @ key \<and> ?cur \<noteq> ?leg"
    by (simp add: generateCacheKey_plain namespaced_keys_differ)
  have verbatim: "JSON_parse P key \<noteq> None \<or> prefix (cachePrefix K) key
           \<or> prefix (adalIdToken K) key
         \<longrightarrow> ?cur = key \<and> ?leg = key"
    using generateCacheKey_structured [of P key _ K this]
          generateCacheKey_prefixed [of K key P this]
    by auto
  show ?thesis
    unfolding cur_def leg_def
    by (rule conjI [OF both conjI [OF written conjI [OF removed conjI [OF plain verbatim]]]])
qed

theorem setItem_removeItem_migration_witness:
  "rollbackEnabled (exampleCache LocalStorage)
   \<and> JSON_parse examplePlatform ''idtoken'' = None
   \<and> (\<exists>h' h''. AuthCache_setItem examplePlatform msalConstants (exampleCache LocalStorage)
          ''idtoken'' ''tok'' False (browser []) = Inr h'
        \<and> storageContents LocalStorage h' =
            Inr [(''msal.app1.idtoken'', ''tok''), (''msal.idtoken'', ''tok'')]
        \<and> AuthCache_removeItem examplePlatform msalConstants (exampleCache LocalStorage)
            ''idtoken'' h' = Inr h''
        \<and> storageContents LocalStorage h'' = Inr [])"
proof -
  let ?cache = "exampleCache LocalStorage"
  have loc: "cacheLocation ?cache = LocalStorage" and migration: "rollbackEnabled ?cache"
    by (simp_all add: exampleCache_def)
  have area: "storageContents (cacheLocation ?cache) (browser []) = Inr []"
    by (simp add: loc storageContents_browser)
  have notJSON: "JSON_parse examplePlatform ''idtoken'' = None"
    by (simp add: examplePlatform_def exampleJSON_def)
  have cur: "generateCacheKey examplePlatform msalConstants ?cache ''idtoken'' True
               = ''msal.app1.idtoken''"
    and leg: "generateCacheKey examplePlatform msalConstants ?cache ''idtoken'' False
               = ''msal.idtoken''"
    by (simp_all add: generateCacheKey_def examplePlatform_def exampleJSON_def
          msalConstants_def exampleCache_def)
  from setItem_removeItem_migration
         [OF migration area, of examplePlatform msalConstants "''idtoken''" "''tok''" False]
  have "\<exists>h' h''. AuthCache_setItem examplePlatform msalConstants ?cache
          ''idtoken'' ''tok'' False (browser []) = Inr h'
        \<and> storageContents LocalStorage h' =
            Inr [(''msal.app1.idtoken'', ''tok''), (''msal.idtoken'', ''tok'')]
        \<and> AuthCache_removeItem examplePlatform msalConstants ?cache ''idtoken'' h' = Inr h''
        \<and> storageContents LocalStorage h'' = Inr []"
    unfolding cur leg loc by simp
  with migration notJSON show ?thesis by blast
qed

text \<open>
  Claim C4 as stated fails: \<^verbatim>\<open>adal.idtoken\<close> does not parse as JSON, yet in migration
  mode \<^verbatim>\<open>setItem\<close> creates the single entry \<^verbatim>\<open>adal.idtoken\<close>, and neither
  \<^verbatim>\<open>msal.app1.adal.idtoken\<close> nor \<^verbatim>\<open>msal.adal.idtoken\<close>.
\<close>

theorem setItem_legacy_library_key_counterexample:
  "rollbackEnabled (exampleCache LocalStorage)
   \<and> JSON_parse examplePlatform ''adal.idtoken'' = None
   \<and> AuthCache_setItem examplePlatform msalConstants (exampleCache LocalStorage)
       ''adal.idtoken'' ''tok'' False (browser []) = Inr (browser [(''adal.idtoken'', ''tok'')])
   \<and> map_of [(''adal.idtoken'', ''tok'')] ''msal.app1.adal.idtoken'' = None
   \<and> map_of [(''adal.idtoken'', ''tok'')] ''msal.adal.idtoken'' = None"
  by (simp add: AuthCache_setItem_def BrowserStorage_setItem_def storageContents_browser
        putStorage_browser generateCacheKey_def examplePlatform_def exampleJSON_def
        msalConstants_def exampleCache_def)

section \<open>Reading back what was written\<close>

lemma cookieAssignments_BrowserStorage_setItemCookie:
  "cookieAssignments (BrowserStorage_setItemCookie P cName cValue None h) =
     cookieAssignments h @ [cName @ ''='' @ cValue @ '';path=/;'']"
  by (simp add: BrowserStorage_setItemCookie_def cookieString_def)

lemma cookieAssignments_AuthCache_setItemCookie:
  "cookieAssignments
     (AuthCache_setItemCookie P K this (generateCacheKey P K this key g) cValue None h) =
   cookieAssignments h @
     (if rollbackEnabled this
      then [generateCacheKey P K this key g @ ''='' @ cValue @ '';path=/;'',
            generateCacheKey P K this key g @ ''='' @ cValue @ '';path=/;'']
      else [generateCacheKey P K this key g @ ''='' @ cValue @ '';path=/;''])"
  by (simp add: AuthCache_setItemCookie_def Let_def generateCacheKey_fixed
        cookieAssignments_BrowserStorage_setItemCookie)

lemma AuthCache_setItem_cookies:
  assumes "storageContents (cacheLocation this) h = Inr s"
  shows "\<exists>h'. AuthCache_setItem P K this key value mirror h = Inr h'
           \<and> storageContents (cacheLocation this) h' =
               Inr (if rollbackEnabled this
                    then AList.update (generateCacheKey P K this key False) value
                           (AList.update (generateCacheKey P K this key True) value s)
                    else AList.update (generateCacheKey P K this key True) value s)
           \<and> cookieAssignments h' =
               cookieAssignments h @
                 (if mirror
                  then (if rollbackEnabled this
                        then [generateCacheKey P K this key True @ ''='' @ value @ '';path=/;'',
                              generateCacheKey P K this key True @ ''='' @ value @ '';path=/;'',
                              generateCacheKey P K this key False @ ''='' @ value @ '';path=/;'',
                              generateCacheKey P K this key False @ ''='' @ value @ '';path=/;'']
                        else [generateCacheKey P K this key True @ ''='' @ value @ '';path=/;''])
                  else [])"
proof -
  let ?loc = "cacheLocation this"
  let ?cur = "generateCacheKey P K this key True"
  let ?leg = "generateCacheKey P K this key False"
  let ?f = "AuthCache_setItemCookie P K this"
  let ?h1 = "if mirror then ?f ?cur value None (putStorage ?loc (AList.update ?cur value s) h)
             else putStorage ?loc (AList.update ?cur value s) h"
  have s1: "BrowserStorage_setItem ?f ?loc ?cur value mirror h = Inr ?h1"
    using assms by (rule BrowserStorage_setItem_eq)
  have c1: "storageContents ?loc ?h1 = Inr (AList.update ?cur value s)"
    using assms by (simp add: storageContents_AuthCache_setItemCookie storageContents_putStorage)
  have k1: "cookieAssignments ?h1 = cookieAssignments h @
      (if mirror then (if rollbackEnabled this
                       then [?cur @ ''='' @ value @ '';path=/;'', ?cur @ ''='' @ value @ '';path=/;'']
                       else [?cur @ ''='' @ value @ '';path=/;''])
       else [])"
    by (simp add: cookieAssignments_putStorage cookieAssignments_AuthCache_setItemCookie)
  show ?thesis
  proof (cases "rollbackEnabled this")
    case False
    then show ?thesis using s1 c1 k1 by (simp add: AuthCache_setItem_def)
  next
    case True
    let ?h2 = "if mirror
               then ?f ?leg value None
                      (putStorage ?loc (AList.update ?leg value (AList.update ?cur value s)) ?h1)
               else putStorage ?loc (AList.update ?leg value (AList.update ?cur value s)) ?h1"
    have s2: "BrowserStorage_setItem ?f ?loc ?leg value mirror ?h1 = Inr ?h2"
      using c1 by (rule BrowserStorage_setItem_eq)
    have c2: "storageContents ?loc ?h2 =
                Inr (AList.update ?leg value (AList.update ?cur value s))"
      using storageContents_putStorage [OF c1]
      by (cases mirror) (simp_all add: storageContents_AuthCache_setItemCookie)
    have k2: "cookieAssignments ?h2 = cookieAssignments h @
        (if mirror
         then [?cur @ ''='' @ value @ '';path=/;'', ?cur @ ''='' @ value @ '';path=/;'',
               ?leg @ ''='' @ value @ '';path=/;'', ?leg @ ''='' @ value @ '';path=/;'']
         else [])"
      using True
      by (cases mirror)
         (simp_all add: cookieAssignments_putStorage cookieAssignments_AuthCache_setItemCookie)
    have "AuthCache_setItem P K this key value mirror h = Inr ?h2"
      using True s1 s2 by (simp add: AuthCache_setItem_def)
    then show ?thesis using True c2 k2 by auto
  qed
qed

text \<open>
  Claim C5, amended. On each backend whose storage area exists (local storage, session
  storage, a \<^verbatim>\<open>CustomStorage\<close> instance), \<^verbatim>\<open>setItem(key, value, mirror)\<close> followed by
  \<^verbatim>\<open>getItem(key, mirror)\<close> returns \<open>value\<close>, provided that, with mirroring on, the cookie
  store keeps \<open>value\<close> verbatim: read after the assignments \<^verbatim>\<open>setItem\<close> makes to
  \<^verbatim>\<open>document.cookie\<close>, it gives \<open>value\<close> for the current-schema key. Those assignments
  are \<^verbatim>\<open>name=value;path=/;\<close> for the current-schema key and, in migration mode, for the
  legacy-schema key (each made twice in migration mode); without mirroring there are
  none.
\<close>

theorem setItem_then_getItem:
  fixes P :: "'j platform"
  defines "cur \<equiv> \<lambda>K this key. generateCacheKey P K this key True"
    and "leg \<equiv> \<lambda>K this key. generateCacheKey P K this key False"
  defines "writes \<equiv> \<lambda>K this key v.
      if rollbackEnabled this
      then [cur K this key @ ''='' @ v @ '';path=/;'', cur K this key @ ''='' @ v @ '';path=/;'',
            leg K this key @ ''='' @ v @ '';path=/;'', leg K this key @ ''='' @ v @ '';path=/;'']
      else [cur K this key @ ''='' @ v @ '';path=/;'']"
  assumes area: "storageContents (cacheLocation this) h = Inr s"
    and verbatim:
      "mirror \<longrightarrow>
         BrowserStorage_getItemCookie P (cur K this key)
           (h\<lparr>cookieAssignments := cookieAssignments h @ writes K this key value\<rparr>) = value"
  shows "\<exists>h'. AuthCache_setItem P K this key value mirror h = Inr h'
           \<and> cookieAssignments h' =
               cookieAssignments h @ (if mirror then writes K this key value else [])
           \<and> AuthCache_getItem P K this key mirror h' = Inr (Some value)"
proof -
  let ?cur = "generateCacheKey P K this key True"
  let ?leg = "generateCacheKey P K this key False"
  from AuthCache_setItem_cookies [OF area, of P K key "value" mirror]
  obtain h' where set: "AuthCache_setItem P K this key value mirror h = Inr h'"
    and area': "storageContents (cacheLocation this) h' =
                  Inr (if rollbackEnabled this
                       then AList.update ?leg value (AList.update ?cur value s)
                       else AList.update ?cur value s)"
    and cookies: "cookieAssignments h' =
                    cookieAssignments h @ (if mirror then writes K this key value else [])"
    unfolding writes_def cur_def leg_def by blast
  have stored: "map_of (if rollbackEnabled this
                        then AList.update ?leg value (AList.update ?cur value s)
                        else AList.update ?cur value s) ?cur = Some value"
    by (simp add: update_conv')
  have mirrored: "mirror \<Longrightarrow> BrowserStorage_getItemCookie P ?cur h' = value"
    using verbatim cookies
    by (simp add: BrowserStorage_getItemCookie_def cur_def)
  have "AuthCache_getItem P K this key mirror h' = Inr (Some value)"
    using area' stored mirrored
    by (simp add: AuthCache_getItem_def BrowserStorage_getItem_def
          AuthCache_getItemCookie_def generateCacheKey_fixed)
  with set cookies show ?thesis by blast
qed

theorem setItem_then_getItem_witness:
  "BrowserStorage_getItemCookie examplePlatform ''msal.app1.idtoken''
     ((browser [])\<lparr>cookieAssignments :=
         [''msal.app1.idtoken=OLD;path=/;'',
          ''msal.app1.idtoken=tok;path=/;'', ''msal.app1.idtoken=tok;path=/;'',
          ''msal.idtoken=tok;path=/;'', ''msal.idtoken=tok;path=/;'']\<rparr>) = ''tok''
   \<and> (\<exists>h'. AuthCache_setItem examplePlatform msalConstants (exampleCache LocalStorage)
          ''idtoken'' ''tok'' True
          ((browser [])\<lparr>cookieAssignments := [''msal.app1.idtoken=OLD;path=/;'']\<rparr>) = Inr h'
        \<and> cookieAssignments h' =
            [''msal.app1.idtoken=OLD;path=/;'',
             ''msal.app1.idtoken=tok;path=/;'', ''msal.app1.idtoken=tok;path=/;'',
             ''msal.idtoken=tok;path=/;'', ''msal.idtoken=tok;path=/;'']
        \<and> AuthCache_getItem examplePlatform msalConstants (exampleCache LocalStorage)
            ''idtoken'' True h' = Inr (Some ''tok''))
   \<and> (\<exists>h'. AuthCache_setItem examplePlatform msalConstants (exampleCache CustomInstance)
          ''idtoken'' ''tok'' False (browser []) = Inr h'
        \<and> AuthCache_getItem examplePlatform msalConstants (exampleCache CustomInstance)
            ''idtoken'' False h' = Inr (Some ''tok''))"
proof -
  let ?stale = "(browser [])\<lparr>cookieAssignments := [''msal.app1.idtoken=OLD;path=/;'']\<rparr>"
  have loc: "cacheLocation (exampleCache LocalStorage) = LocalStorage"
       "cacheLocation (exampleCache CustomInstance) = CustomInstance"
    and migration: "rollbackEnabled (exampleCache LocalStorage)"
    by (simp_all add: exampleCache_def)
  have cur: "generateCacheKey examplePlatform msalConstants (exampleCache LocalStorage)
               ''idtoken'' True = ''msal.app1.idtoken''"
    and leg: "generateCacheKey examplePlatform msalConstants (exampleCache LocalStorage)
               ''idtoken'' False = ''msal.idtoken''"
    by (simp_all add: generateCacheKey_def examplePlatform_def exampleJSON_def
          msalConstants_def exampleCache_def)
  have area: "storageContents (cacheLocation (exampleCache LocalStorage)) ?stale = Inr []"
    by (simp add: loc storageContents_def getStorage_def browser_def)
  have store: "document_cookie examplePlatform
        [''msal.app1.idtoken=OLD;path=/;'',
         ''msal.app1.idtoken=tok;path=/;'', ''msal.app1.idtoken=tok;path=/;'',
         ''msal.idtoken=tok;path=/;'', ''msal.idtoken=tok;path=/;'']
      = ''msal.app1.idtoken=tok; msal.idtoken=tok''"
    by (simp add: examplePlatform_def exampleCookieJar_def storeCookie_def Let_def)
  have pieces: "split ''msal.app1.idtoken=tok; msal.idtoken=tok'' '';''
      = [''msal.app1.idtoken=tok'', '' msal.idtoken=tok'']"
    by (simp add: split_def)
  have kept: "BrowserStorage_getItemCookie examplePlatform ''msal.app1.idtoken''
     ((browser [])\<lparr>cookieAssignments :=
         [''msal.app1.idtoken=OLD;path=/;'',
          ''msal.app1.idtoken=tok;path=/;'', ''msal.app1.idtoken=tok;path=/;'',
          ''msal.idtoken=tok;path=/;'', ''msal.idtoken=tok;path=/;'']\<rparr>) = ''tok''"
    by (simp add: BrowserStorage_getItemCookie_def store pieces)
  have verbatim: "True \<longrightarrow>
      BrowserStorage_getItemCookie examplePlatform
        (generateCacheKey examplePlatform msalConstants (exampleCache LocalStorage)
           ''idtoken'' True)
        (?stale\<lparr>cookieAssignments := cookieAssignments ?stale @
           (if rollbackEnabled (exampleCache LocalStorage)
            then [generateCacheKey examplePlatform msalConstants (exampleCache LocalStorage)
                    ''idtoken'' True @ ''='' @ ''tok'' @ '';path=/;'',
                  generateCacheKey examplePlatform msalConstants (exampleCache LocalStorage)
                    ''idtoken'' True @ ''='' @ ''tok'' @ '';path=/;'',
                  generateCacheKey examplePlatform msalConstants (exampleCache LocalStorage)
                    ''idtoken'' False @ ''='' @ ''tok'' @ '';path=/;'',
                  generateCacheKey examplePlatform msalConstants (exampleCache LocalStorage)
                    ''idtoken'' False @ ''='' @ ''tok'' @ '';path=/;'']
            else [generateCacheKey examplePlatform msalConstants (exampleCache LocalStorage)
                    ''idtoken'' True @ ''='' @ ''tok'' @ '';path=/;''])\<rparr>) = ''tok''"
    using kept by (simp add: cur leg migration)
  from setItem_then_getItem [OF area verbatim]
  have mirrored: "\<exists>h'. AuthCache_setItem examplePlatform msalConstants
          (exampleCache LocalStorage) ''idtoken'' ''tok'' True ?stale = Inr h'
        \<and> cookieAssignments h' =
            [''msal.app1.idtoken=OLD;path=/;'',
             ''msal.app1.idtoken=tok;path=/;'', ''msal.app1.idtoken=tok;path=/;'',
             ''msal.idtoken=tok;path=/;'', ''msal.idtoken=tok;path=/;'']
        \<and> AuthCache_getItem examplePlatform msalConstants (exampleCache LocalStorage)
            ''idtoken'' True h' = Inr (Some ''tok'')"
    by (simp add: cur leg migration)
  have area2: "storageContents (cacheLocation (exampleCache CustomInstance)) (browser []) = Inr []"
    by (simp add: loc storageContents_def getStorage_def browser_def)
  from setItem_then_getItem
         [OF area2, of False examplePlatform msalConstants "''idtoken''" "''tok''"]
  have plain: "\<exists>h'. AuthCache_setItem examplePlatform msalConstants
          (exampleCache CustomInstance) ''idtoken'' ''tok'' False (browser []) = Inr h'
        \<and> AuthCache_getItem examplePlatform msalConstants (exampleCache CustomInstance)
            ''idtoken'' False h' = Inr (Some ''tok'')"
    by auto
  show ?thesis using kept mirrored plain by blast
qed

text \<open>
  Claim C5 as stated fails with cookie mirroring on: the value \<^verbatim>\<open>a;b\<close> is written to the
  cookie unescaped, the cookie store keeps the text before the semicolon, and
  \<^verbatim>\<open>getItem\<close> returns \<^verbatim>\<open>a\<close>.
\<close>

theorem setItem_then_getItem_cookie_counterexample:
  "AuthCache_setItem examplePlatform msalConstants (exampleCache LocalStorage)
     ''k'' ''a;b'' True (browser [])
   = Inr \<lparr>window = Some \<lparr>localStorage =
                           StorageArea [(''msal.app1.k'', ''a;b''), (''msal.k'', ''a;b'')],
                         sessionStorage = StorageArea []\<rparr>,
          customStorage = [],
          cookieAssignments =
            [''msal.app1.k=a;b;path=/;'', ''msal.app1.k=a;b;path=/;'',
             ''msal.k=a;b;path=/;'', ''msal.k=a;b;path=/;''],
          now = 0\<rparr>
   \<and> AuthCache_getItem examplePlatform msalConstants (exampleCache LocalStorage) ''k'' True
       \<lparr>window = Some \<lparr>localStorage =
                           StorageArea [(''msal.app1.k'', ''a;b''), (''msal.k'', ''a;b'')],
                         sessionStorage = StorageArea []\<rparr>,
          customStorage = [],
          cookieAssignments =
            [''msal.app1.k=a;b;path=/;'', ''msal.app1.k=a;b;path=/;'',
             ''msal.k=a;b;path=/;'', ''msal.k=a;b;path=/;''],
          now = 0\<rparr>
     = Inr (Some ''a'')"
proof -
  have keys: "generateCacheKey examplePlatform msalConstants (exampleCache LocalStorage)
                ''k'' True = ''msal.app1.k''"
       "generateCacheKey examplePlatform msalConstants (exampleCache LocalStorage)
                ''k'' False = ''msal.k''"
       "generateCacheKey examplePlatform msalConstants (exampleCache LocalStorage)
                ''msal.app1.k'' True = ''msal.app1.k''"
       "generateCacheKey examplePlatform msalConstants (exampleCache LocalStorage)
                ''msal.app1.k'' False = ''msal.app1.k''"
       "generateCacheKey examplePlatform msalConstants (exampleCache LocalStorage)
                ''msal.k'' True = ''msal.k''"
       "generateCacheKey examplePlatform msalConstants (exampleCache LocalStorage)
                ''msal.k'' False = ''msal.k''"
    by (simp_all add: generateCacheKey_def examplePlatform_def exampleJSON_def
          msalConstants_def exampleCache_def)
  have loc: "cacheLocation (exampleCache LocalStorage) = LocalStorage"
    and migration: "rollbackEnabled (exampleCache LocalStorage)"
    by (simp_all add: exampleCache_def)
  have written: "AuthCache_setItem examplePlatform msalConstants (exampleCache LocalStorage)
     ''k'' ''a;b'' True (browser [])
   = Inr \<lparr>window = Some \<lparr>localStorage =
                           StorageArea [(''msal.app1.k'', ''a;b''), (''msal.k'', ''a;b'')],
                         sessionStorage = StorageArea []\<rparr>,
          customStorage = [],
          cookieAssignments =
            [''msal.app1.k=a;b;path=/;'', ''msal.app1.k=a;b;path=/;'',
             ''msal.k=a;b;path=/;'', ''msal.k=a;b;path=/;''],
          now = 0\<rparr>"
    by (simp add: AuthCache_setItem_def BrowserStorage_setItem_def keys loc migration
          AuthCache_setItemCookie_def BrowserStorage_setItemCookie_def cookieString_def
          storageContents_def getStorage_def putStorage_def browser_def Let_def)
  have cookie: "document_cookie examplePlatform
            [''msal.app1.k=a;b;path=/;'', ''msal.app1.k=a;b;path=/;'',
             ''msal.k=a;b;path=/;'', ''msal.k=a;b;path=/;'']
          = ''msal.app1.k=a; msal.k=a''"
    by (simp add: examplePlatform_def exampleCookieJar_def storeCookie_def Let_def)
  have pieces: "split ''msal.app1.k=a; msal.k=a'' '';'' = [''msal.app1.k=a'', '' msal.k=a'']"
    by (simp add: split_def)
  have read: "AuthCache_getItem examplePlatform msalConstants (exampleCache LocalStorage)
       ''k'' True
       \<lparr>window = Some \<lparr>localStorage =
                           StorageArea [(''msal.app1.k'', ''a;b''), (''msal.k'', ''a;b'')],
                         sessionStorage = StorageArea []\<rparr>,
          customStorage = [],
          cookieAssignments =
            [''msal.app1.k=a;b;path=/;'', ''msal.app1.k=a;b;path=/;'',
             ''msal.k=a;b;path=/;'', ''msal.k=a;b;path=/;''],
          now = 0\<rparr>
     = Inr (Some ''a'')"
    by (simp add: AuthCache_getItem_def BrowserStorage_getItem_def keys loc
          AuthCache_getItemCookie_def BrowserStorage_getItemCookie_def cookie pieces)
  show ?thesis using written read by (rule conjI)
qed

section \<open>The token scan\<close>

text \<open>
  Claim C8, evaluated. Two accounts of the client \<^verbatim>\<open>app1\<close> are cached, with the
  identifiers \<^verbatim>\<open>uid.utid\<close> and \<^verbatim>\<open>uid-utid\<close>. Only the first key contains
  \<^verbatim>\<open>uid.utid\<close>, and the specification's description gives its one item; but
  \<^verbatim>\<open>AuthCache.getAllAccessTokens("app1", "uid.utid")\<close> returns the items of both
  accounts, because \<^verbatim>\<open>key.match(homeAccountIdentifier)\<close> reads the identifier as a
  regular expression and its dot matches the hyphen. And the older
  \<^verbatim>\<open>Storage.getAllAccessTokens\<close> has no \<^verbatim>\<open>try\<close>: an entry that matches both
  identifiers and whose key is not JSON makes it raise.
\<close>

theorem getAllAccessTokens_matches_by_pattern:
  \<open>spec_getAllAccessTokens examplePlatform ''app1'' ''uid.utid''
     [(''{"c":"app1","h":"uid.utid"}'', ''{"t":"tok"}''),
      (''{"c":"app1","h":"uid-utid"}'', ''{"t":"tok"}'')]
     = [AccessTokenCacheItem
          (JObject [(''c'', JString ''app1''), (''h'', JString ''uid.utid'')])
          (JObject [(''t'', JString ''tok'')])]
   \<and> AuthCache_getAllAccessTokens examplePlatform msalConstants (exampleCache LocalStorage)
       ''app1'' ''uid.utid''
       (browser [(''{"c":"app1","h":"uid.utid"}'', ''{"t":"tok"}''),
                 (''{"c":"app1","h":"uid-utid"}'', ''{"t":"tok"}'')])
     = Inr [AccessTokenCacheItem
              (JObject [(''c'', JString ''app1''), (''h'', JString ''uid.utid'')])
              (JObject [(''t'', JString ''tok'')]),
            AccessTokenCacheItem
              (JObject [(''c'', JString ''app1''), (''h'', JString ''uid-utid'')])
              (JObject [(''t'', JString ''tok'')])]
   \<and> Storage_getAllAccessTokens examplePlatform LocalStorage ''app1'' ''acct1''
       (browser [(''{"c":"app1","h":"acct1"'', ''tok'')])
     = Inl SyntaxError\<close>
proof -
  let ?s = \<open>[(''{"c":"app1","h":"uid.utid"}'', ''{"t":"tok"}''),
             (''{"c":"app1","h":"uid-utid"}'', ''{"t":"tok"}'')]\<close>
  have loc: "cacheLocation (exampleCache LocalStorage) = LocalStorage"
    by (simp add: exampleCache_def)
  have described: \<open>spec_getAllAccessTokens examplePlatform ''app1'' ''uid.utid'' ?s
     = [AccessTokenCacheItem
          (JObject [(''c'', JString ''app1''), (''h'', JString ''uid.utid'')])
          (JObject [(''t'', JString ''tok'')])]\<close>
    by (simp add: spec_getAllAccessTokens_def decodeEntry_def List.map_filter_simps
          examplePlatform_def exampleJSON_def sublist_Cons_right)
  have m: \<open>String_match examplePlatform ''{"c":"app1","h":"uid.utid"}'' ''app1'' = Inr True\<close>
      \<open>String_match examplePlatform ''{"c":"app1","h":"uid.utid"}'' ''uid.utid'' = Inr True\<close>
      \<open>String_match examplePlatform ''{"c":"app1","h":"uid-utid"}'' ''app1'' = Inr True\<close>
      \<open>String_match examplePlatform ''{"c":"app1","h":"uid-utid"}'' ''uid.utid'' = Inr True\<close>
    by (simp_all add: String_match_def syntaxCharacters_def)
  have tokenKey:
      \<open>JSON_parse examplePlatform ''{"c":"app1","h":"uid.utid"}''
        = Some (JObject [(''c'', JString ''app1''), (''h'', JString ''uid.utid'')])\<close>
      \<open>JSON_parse examplePlatform ''{"c":"app1","h":"uid-utid"}''
        = Some (JObject [(''c'', JString ''app1''), (''h'', JString ''uid-utid'')])\<close>
    by (simp_all add: examplePlatform_def exampleJSON_def)
  have tokenValue: \<open>JSON_parse_item examplePlatform (Some ''{"t":"tok"}'')
      = Some (JObject [(''t'', JString ''tok'')])\<close>
    by (simp add: JSON_parse_item_def examplePlatform_def exampleJSON_def)
  have got:
      \<open>AuthCache_getItem examplePlatform msalConstants (exampleCache LocalStorage)
         ''{"c":"app1","h":"uid.utid"}'' False (browser ?s) = Inr (Some ''{"t":"tok"}'')\<close>
      \<open>AuthCache_getItem examplePlatform msalConstants (exampleCache LocalStorage)
         ''{"c":"app1","h":"uid-utid"}'' False (browser ?s) = Inr (Some ''{"t":"tok"}'')\<close>
    by (simp_all add: AuthCache_getItem_def BrowserStorage_getItem_def loc
          storageContents_browser generateCacheKey_structured [OF tokenKey(1)]
          generateCacheKey_structured [OF tokenKey(2)])
  have scanned: \<open>AuthCache_getAllAccessTokens examplePlatform msalConstants
       (exampleCache LocalStorage) ''app1'' ''uid.utid'' (browser ?s)
     = Inr [AccessTokenCacheItem
              (JObject [(''c'', JString ''app1''), (''h'', JString ''uid.utid'')])
              (JObject [(''t'', JString ''tok'')]),
            AccessTokenCacheItem
              (JObject [(''c'', JString ''app1''), (''h'', JString ''uid-utid'')])
              (JObject [(''t'', JString ''tok'')])]\<close>
    by (simp add: AuthCache_getAllAccessTokens_def storageContents_browser loc m got
          tokenKey tokenValue)
  have m': \<open>String_match examplePlatform ''{"c":"app1","h":"acct1"'' ''app1'' = Inr True\<close>
      \<open>String_match examplePlatform ''{"c":"app1","h":"acct1"'' ''acct1'' = Inr True\<close>
    by (simp_all add: String_match_def syntaxCharacters_def)
  have malformed: \<open>JSON_parse examplePlatform ''{"c":"app1","h":"acct1"'' = None\<close>
    by (simp add: examplePlatform_def exampleJSON_def)
  have raised: \<open>Storage_getAllAccessTokens examplePlatform LocalStorage ''app1'' ''acct1''
       (browser [(''{"c":"app1","h":"acct1"'', ''tok'')]) = Inl SyntaxError\<close>
    by (simp add: Storage_getAllAccessTokens_def storageContents_browser m' malformed
          Storage_getItem_def)
  show ?thesis
    by (rule conjI [OF described conjI [OF scanned raised]])
qed

section \<open>Removing the acquire-token entries\<close>

lemma removeAcquireTokenEntries_loop_skips:
  "removeAcquireTokenEntries_loop P C loc state keys h = h"
  by (induction keys)
     (simp_all add: Storage_tokenRenewalInProgress_def split: option.splits)

text \<open>
  Claim C9, evaluated. The key \<^verbatim>\<open>msal.authority|stateA\<close> is tagged as an authority
  entry, its embedded state is \<^verbatim>\<open>stateA\<close>, and the renewal flag of \<^verbatim>\<open>stateA\<close> is
  clear (its renewal-status entry does not hold the sentinel);
  \<^verbatim>\<open>removeAcquireTokenEntries("stateA")\<close> leaves the entry and the renewal-status entry
  in storage and only writes the four cookie deletions of \<^verbatim>\<open>clearCookie\<close>. The test
  \<^verbatim>\<open>!this.tokenRenewalInProgress(state)\<close> negates a promise, so the removals never run
  (\<open>removeAcquireTokenEntries_loop_skips\<close>).
\<close>

theorem removeAcquireTokenEntries_removes_nothing:
  "Storage_tokenRenewalInProgress msalCoreConstants LocalStorage ''stateA''
     (browser [(''msal.authority|stateA'', ''https://login/''),
              (''msal.token.renew.statusstateA'', ''Completed'')]) = Promise (Inr False)
   \<and> indexOf ''msal.authority|stateA'' (AUTHORITY msalCoreConstants) \<noteq> - 1
   \<and> embeddedState msalCoreConstants ''msal.authority|stateA'' = Some ''stateA''
   \<and> Storage_removeAcquireTokenEntries examplePlatform msalCoreConstants LocalStorage
       (Some ''stateA'') (browser [(''msal.authority|stateA'', ''https://login/''),
              (''msal.token.renew.statusstateA'', ''Completed'')])
     = Inr ((browser [(''msal.authority|stateA'', ''https://login/''),
              (''msal.token.renew.statusstateA'', ''Completed'')])
              \<lparr>cookieAssignments :=
                 [''msal.nonce.idtoken=;expires=Wed, 31 Dec 1969 00:00:00 GMT;'',
                  ''msal.state.login=;expires=Wed, 31 Dec 1969 00:00:00 GMT;'',
                  ''msal.login.request=;expires=Wed, 31 Dec 1969 00:00:00 GMT;'',
                  ''msal.state.acquireToken=;expires=Wed, 31 Dec 1969 00:00:00 GMT;'']\<rparr>)"
proof -
  let ?h = "browser [(''msal.authority|stateA'', ''https://login/''),
              (''msal.token.renew.statusstateA'', ''Completed'')]"
  have flag: "Storage_tokenRenewalInProgress msalCoreConstants LocalStorage ''stateA'' ?h
                = Promise (Inr False)"
    by (simp add: Storage_tokenRenewalInProgress_def storageContents_browser
          msalCoreConstants_def)
  have tagged: "indexOf ''msal.authority|stateA'' (AUTHORITY msalCoreConstants) \<noteq> - 1"
    by (simp add: msalCoreConstants_def)
  have embedded: "embeddedState msalCoreConstants ''msal.authority|stateA'' = Some ''stateA''"
    by (simp add: embeddedState_def split_def msalCoreConstants_def)
  have run: "Storage_removeAcquireTokenEntries examplePlatform msalCoreConstants LocalStorage
       (Some ''stateA'') ?h
     = Inr (?h\<lparr>cookieAssignments :=
                 [''msal.nonce.idtoken=;expires=Wed, 31 Dec 1969 00:00:00 GMT;'',
                  ''msal.state.login=;expires=Wed, 31 Dec 1969 00:00:00 GMT;'',
                  ''msal.login.request=;expires=Wed, 31 Dec 1969 00:00:00 GMT;'',
                  ''msal.state.acquireToken=;expires=Wed, 31 Dec 1969 00:00:00 GMT;'']\<rparr>)"
  proof -
    have "Storage_removeAcquireTokenEntries examplePlatform msalCoreConstants LocalStorage
            (Some ''stateA'') ?h = Inr (Storage_clearCookie examplePlatform msalCoreConstants ?h)"
      by (simp add: Storage_removeAcquireTokenEntries_def storageContents_browser
            removeAcquireTokenEntries_loop_skips)
    then show ?thesis
      by (simp add: Storage_clearCookie_def Storage_setItemCookie_def
            getCookieExpirationTime_def Let_def msalCoreConstants_def examplePlatform_def
            browser_def)
  qed
  show ?thesis using flag tagged embedded run by simp
qed

section \<open>The expires attribute of a cookie\<close>

text \<open>
  Claim C10, amended. \<^verbatim>\<open>setItemCookie(cName, cValue, expires)\<close> assigns to
  \<^verbatim>\<open>document.cookie\<close> the string \<^verbatim>\<open>cName=cValue;path=/;\<close> with no \<^verbatim>\<open>expires\<close>
  attribute when the argument is absent, \<open>0\<close> or \<^verbatim>\<open>NaN\<close>; for every other number, a
  non-zero finite \<open>n\<close> (also a negative one) or an infinity, it appends
  \<^verbatim>\<open>expires=<date>;\<close>, the date being that many days after now.
  \<^verbatim>\<open>clearItemCookie\<close> passes \<open>-1\<close> and so writes the attribute, one day in the past.
\<close>

theorem setItemCookie_expires_attribute:
  "BrowserStorage_setItemCookie P cName cValue None h =
     h\<lparr>cookieAssignments := cookieAssignments h @ [cName @ ''='' @ cValue @ '';path=/;'']\<rparr>
   \<and> BrowserStorage_setItemCookie P cName cValue (Some (Num 0)) h =
     h\<lparr>cookieAssignments := cookieAssignments h @ [cName @ ''='' @ cValue @ '';path=/;'']\<rparr>
   \<and> BrowserStorage_setItemCookie P cName cValue (Some NaN) h =
     h\<lparr>cookieAssignments := cookieAssignments h @ [cName @ ''='' @ cValue @ '';path=/;'']\<rparr>
   \<and> (n \<noteq> 0 \<longrightarrow>
        BrowserStorage_setItemCookie P cName cValue (Some (Num n)) h =
          h\<lparr>cookieAssignments := cookieAssignments h @
               [cName @ ''='' @ cValue @ '';path=/;'' @ ''expires=''
                  @ toUTCString P (Num (of_int (now h) + n * 24 * 60 * 60 * 1000)) @ '';'']\<rparr>)
   \<and> BrowserStorage_setItemCookie P cName cValue (Some Infinity) h =
       h\<lparr>cookieAssignments := cookieAssignments h @
            [cName @ ''='' @ cValue @ '';path=/;'' @ ''expires=''
               @ toUTCString P Infinity @ '';'']\<rparr>
   \<and> BrowserStorage_setItemCookie P cName cValue (Some MinusInfinity) h =
       h\<lparr>cookieAssignments := cookieAssignments h @
            [cName @ ''='' @ cValue @ '';path=/;'' @ ''expires=''
               @ toUTCString P MinusInfinity @ '';'']\<rparr>
   \<and> BrowserStorage_clearItemCookie (BrowserStorage_setItemCookie P) cName h =
       h\<lparr>cookieAssignments := cookieAssignments h @
            [cName @ ''='' @ '';path=/;'' @ ''expires=''
               @ toUTCString P (Num (of_int (now h) + (- 1) * 24 * 60 * 60 * 1000)) @ '';'']\<rparr>"
  by (simp add: BrowserStorage_setItemCookie_def cookieString_def
        BrowserStorage_clearItemCookie_def getCookieExpirationTime_def)

theorem setItemCookie_expires_attribute_witness:
  "(1::rat) \<noteq> 0
   \<and> BrowserStorage_setItemCookie examplePlatform ''x'' ''y'' (Some (Num 1)) (browser []) =
       (browser [])\<lparr>cookieAssignments :=
                       [''x=y;path=/;expires=Fri, 02 Jan 1970 00:00:00 GMT;'']\<rparr>
   \<and> BrowserStorage_setItemCookie examplePlatform ''x'' ''y'' (Some (Num 0)) (browser []) =
       (browser [])\<lparr>cookieAssignments := [''x=y;path=/;'']\<rparr>
   \<and> BrowserStorage_clearItemCookie (BrowserStorage_setItemCookie examplePlatform) ''x''
        (browser []) =
       (browser [])\<lparr>cookieAssignments :=
                       [''x=;path=/;expires=Wed, 31 Dec 1969 00:00:00 GMT;'']\<rparr>"
  using setItemCookie_expires_attribute [of examplePlatform "''x''" "''y''" "browser []" 1]
  by (simp add: examplePlatform_def browser_def)

text \<open>
  Claim C10 as stated fails: \<^verbatim>\<open>NaN\<close> is an argument that is present and is not zero,
  and \<^verbatim>\<open>if (expires)\<close> is false for it, so the cookie is written without the attribute.
\<close>

theorem setItemCookie_NaN_counterexample:
  "Some NaN \<noteq> None \<and> NaN \<noteq> Num 0
   \<and> BrowserStorage_setItemCookie examplePlatform ''x'' ''y'' (Some NaN) (browser []) =
       (browser [])\<lparr>cookieAssignments := [''x=y;path=/;'']\<rparr>"
  by (simp add: BrowserStorage_setItemCookie_def cookieString_def browser_def)

end
